theory Spec2Isabelle
  imports Complex_Main
begin

section \<open>Data model of the trading pipeline\<close>

text \<open>
  The pipeline of \<^verbatim>\<open>src/shiny/trading/utils.py\<close> works on pandas data frames whose
  numeric columns hold float64 values. A cell that pandas can leave empty is modelled as
  a \<open>real option\<close>: \<open>Some r\<close> is the number \<open>r\<close> (rounding is not modelled), \<open>None\<close> is
  NaN, which pandas also uses as its missing value. Infinities are not represented: where
  IEEE arithmetic yields one (division by a zero close, the logarithm of zero) the model
  yields \<open>None\<close> as well, so statements about values are made for positive closes, the
  only ones a price series holds.
\<close>

type_synonym cell = "real option"

datatype error = ValueError | IndexError

text \<open>The frame that \<^verbatim>\<open>fetch_stock_data\<close> returns: one list per column, one entry per row.
  Dates are day numbers, and every price of the frame is a number. The columns that the
  pipeline derives with a shift hold cells, the others numbers.\<close>

record price_frame =
  Date :: "int list"
  Open :: "real list"
  High :: "real list"
  Low :: "real list"
  Close :: "real list"
  Volume :: "int list"

record indicator_frame = price_frame +
  EMA_Short :: "real list"
  EMA_Long :: "real list"
  Signal :: "real list"
  Position :: "cell list"

record backtest_frame = indicator_frame +
  Strategy_Signal :: "cell list"
  Log_Returns :: "cell list"
  Strategy_Returns :: "cell list"
  Cum_Benchmark :: "cell list"
  Cum_Strategy :: "cell list"
  Equity_Benchmark :: "cell list"
  Equity_Strategy :: "cell list"

text \<open>A data frame has the same number of rows in every column.\<close>

definition wf_frame :: "'a price_frame_scheme \<Rightarrow> bool" where
  "wf_frame df \<longleftrightarrow>
     length (Open df) = length (Date df) \<and> length (High df) = length (Date df) \<and>
     length (Low df) = length (Date df) \<and> length (Close df) = length (Date df) \<and>
     length (Volume df) = length (Date df)"

section \<open>Column operations of pandas and numpy\<close>

text \<open>Arithmetic on cells: NaN in, NaN out. A division by zero and the logarithm of a
  number that is not positive give no finite number, hence \<open>None\<close>.\<close>

fun lift2 :: "(real \<Rightarrow> real \<Rightarrow> real) \<Rightarrow> cell \<Rightarrow> cell \<Rightarrow> cell" where
  "lift2 f (Some a) (Some b) = Some (f a b)"
| "lift2 f _ _ = None"

definition fmul :: "cell \<Rightarrow> cell \<Rightarrow> cell" where
  "fmul = lift2 (*)"

definition fsub :: "cell \<Rightarrow> cell \<Rightarrow> cell" where
  "fsub = lift2 (-)"

definition fadd :: "cell \<Rightarrow> cell \<Rightarrow> cell" where
  "fadd = lift2 (+)"

fun fdiv :: "cell \<Rightarrow> cell \<Rightarrow> cell" where
  "fdiv (Some a) (Some b) = (if b = 0 then None else Some (a / b))"
| "fdiv _ _ = None"

fun np_log :: "cell \<Rightarrow> cell" where
  "np_log (Some x) = (if 0 < x then Some (ln x) else None)"
| "np_log None = None"

definition np_exp :: "cell \<Rightarrow> cell" where
  "np_exp = map_option exp"

text \<open>\<^verbatim>\<open>Series.shift(1)\<close>: every value moves one row down, row 0 becomes NaN, the last
  value is dropped.\<close>

fun shift1 :: "real list \<Rightarrow> cell list" where
  "shift1 [] = []"
| "shift1 (x # xs) = None # map Some (butlast (x # xs))"

text \<open>\<^verbatim>\<open>Series.diff()\<close>: the value minus the value one row above.\<close>

definition diff_col :: "real list \<Rightarrow> cell list" where
  "diff_col xs = map2 fsub (map Some xs) (shift1 xs)"

text \<open>\<^verbatim>\<open>Series.cumsum()\<close> with the default \<^verbatim>\<open>skipna=True\<close>: a NaN row stays NaN and adds
  nothing to the running sum.\<close>

fun cumsum_from :: "real \<Rightarrow> cell list \<Rightarrow> cell list" where
  "cumsum_from acc [] = []"
| "cumsum_from acc (None # xs) = None # cumsum_from acc xs"
| "cumsum_from acc (Some x # xs) = Some (acc + x) # cumsum_from (acc + x) xs"

definition cumsum :: "cell list \<Rightarrow> cell list" where
  "cumsum xs = cumsum_from 0 xs"

text \<open>
  Float64 rounding. The two EMA columns feed a strict comparison, which their last bit can
  decide, so the smoothing rounds after every operation, as the program does: \<open>round_f64\<close>
  takes a real to the nearest double, a tie to the even mantissa. Only the normal range is
  modelled (no overflow, no subnormal numbers). Everywhere else in this theory an
  operation on floats is its exact result.
\<close>

definition round_even :: "real \<Rightarrow> int" where
  "round_even x =
     (let n = \<lfloor>x\<rfloor>; r = x - of_int n
      in if r < 1 / 2 then n else if 1 / 2 < r then n + 1 else if even n then n else n + 1)"

definition round_f64 :: "real \<Rightarrow> real" where
  "round_f64 x =
     (if x = 0 then 0
      else let e = \<lfloor>log 2 \<bar>x\<bar>\<rfloor> - 52
           in of_int (round_even (x / 2 powr of_int e)) * 2 powr of_int e)"

text \<open>
  \<^verbatim>\<open>Series.ewm(span=span, adjust=False).mean()\<close>. pandas rejects a span below 1 when the
  window object is built. It takes \<^verbatim>\<open>com = (span - 1) / 2\<close> and \<^verbatim>\<open>alpha = 1 / (1 + com)\<close>
  (\<^verbatim>\<open>com\<close> and \<^verbatim>\<open>1 + com\<close> are exact in float64), \<^verbatim>\<open>old_wt_factor = 1 - alpha\<close>, starts
  from the first value and, on every later row whose value differs from the running
  mean, sets \<^verbatim>\<open>weighted = old_wt * weighted + alpha * cur\<close> and then
  \<^verbatim>\<open>weighted /= old_wt + alpha\<close>, with \<^verbatim>\<open>old_wt = old_wt_factor\<close>. The rounding of each
  operation is the parameter \<open>rnd\<close>: \<open>round_f64\<close> in the program, the identity in exact
  arithmetic.
\<close>

definition ewm_alpha :: "(real \<Rightarrow> real) \<Rightarrow> int \<Rightarrow> real" where
  "ewm_alpha rnd spn = rnd (1 / (1 + (real_of_int spn - 1) / 2))"

definition ewm_next :: "(real \<Rightarrow> real) \<Rightarrow> real \<Rightarrow> real \<Rightarrow> real \<Rightarrow> real \<Rightarrow> real" where
  "ewm_next rnd alpha old_wt weighted cur =
     (if weighted \<noteq> cur
      then rnd (rnd (rnd (old_wt * weighted) + rnd (alpha * cur)) / rnd (old_wt + alpha))
      else weighted)"

fun ewm_from :: "(real \<Rightarrow> real) \<Rightarrow> real \<Rightarrow> real \<Rightarrow> real \<Rightarrow> real list \<Rightarrow> real list" where
  "ewm_from rnd alpha old_wt weighted [] = []"
| "ewm_from rnd alpha old_wt weighted (cur # xs) =
     (let w = ewm_next rnd alpha old_wt weighted cur in w # ewm_from rnd alpha old_wt w xs)"

definition ewm_mean :: "(real \<Rightarrow> real) \<Rightarrow> int \<Rightarrow> real list \<Rightarrow> error + real list" where
  "ewm_mean rnd spn xs =
     (if spn < 1 then Inl ValueError
      else let alpha = ewm_alpha rnd spn;
               old_wt = rnd (1 - alpha)
           in Inr (case xs of [] \<Rightarrow> [] | x # rest \<Rightarrow> x # ewm_from rnd alpha old_wt x rest))"

text \<open>\<^verbatim>\<open>np.where(a > b, 1.0, 0.0)\<close> on two columns.\<close>

definition np_where_gt :: "real list \<Rightarrow> real list \<Rightarrow> real list" where
  "np_where_gt xs ys = map2 (\<lambda>a b. if a > b then 1 else 0) xs ys"

text \<open>\<^verbatim>\<open>Series.dropna()\<close> keeps the rows that hold a number.\<close>

fun dropna :: "cell list \<Rightarrow> real list" where
  "dropna [] = []"
| "dropna (None # xs) = dropna xs"
| "dropna (Some x # xs) = x # dropna xs"

text \<open>\<^verbatim>\<open>Series.cummax()\<close> with \<^verbatim>\<open>skipna=True\<close>: a NaN row stays NaN and does not touch
  the running maximum.\<close>

fun cummax_from :: "cell \<Rightarrow> cell list \<Rightarrow> cell list" where
  "cummax_from m [] = []"
| "cummax_from m (None # xs) = None # cummax_from m xs"
| "cummax_from m (Some x # xs) =
     (let m' = (case m of None \<Rightarrow> x | Some y \<Rightarrow> max y x)
      in Some m' # cummax_from (Some m') xs)"

definition cummax :: "cell list \<Rightarrow> cell list" where
  "cummax xs = cummax_from None xs"

text \<open>\<^verbatim>\<open>Series.min()\<close> skips NaN and is NaN when no number is left.\<close>

definition series_min :: "cell list \<Rightarrow> cell" where
  "series_min xs = (case dropna xs of [] \<Rightarrow> None | y # ys \<Rightarrow> Some (fold min ys y))"

text \<open>\<^verbatim>\<open>Series.mean()\<close> and \<^verbatim>\<open>Series.std()\<close> on a column without NaN. The standard
  deviation of pandas has \<^verbatim>\<open>ddof=1\<close> by default: the squared deviations are divided by
  the number of rows less one, and fewer than two rows give NaN.\<close>

definition series_mean :: "real list \<Rightarrow> cell" where
  "series_mean xs = (if xs = [] then None else Some (sum_list xs / real (length xs)))"

definition series_std :: "real list \<Rightarrow> cell" where
  "series_std xs =
     (if length xs < 2 then None
      else let m = sum_list xs / real (length xs)
           in Some (sqrt (sum_list (map (\<lambda>x. (x - m)\<^sup>2) xs) / real (length xs - 1))))"

text \<open>\<^verbatim>\<open>Series.pct_change()\<close>: the value over the value one row above, less one.\<close>

definition pct_change :: "real list \<Rightarrow> cell list" where
  "pct_change xs = map (\<lambda>c. fsub c (Some 1)) (map2 fdiv (map Some xs) (shift1 xs))"

text \<open>\<^verbatim>\<open>x ** y\<close> on floats. The only exponent of the pipeline is \<open>1 / years\<close>, which is
  positive; a negative base has a power only for a whole exponent.\<close>

fun fpow :: "cell \<Rightarrow> real \<Rightarrow> cell" where
  "fpow (Some x) y =
     (if 0 < x then Some (x powr y)
      else if x = 0 then (if 0 < y then Some 0 else None)
      else if 0 < y \<and> y = of_int \<lfloor>y\<rfloor> then Some (x ^ nat \<lfloor>y\<rfloor>)
      else None)"
| "fpow None y = None"

text \<open>\<^verbatim>\<open>Series.iloc[-1]\<close> and \<^verbatim>\<open>Series.iloc[0]\<close> raise on an empty column.\<close>

definition iloc_last :: "'a list \<Rightarrow> error + 'a" where
  "iloc_last xs = (if xs = [] then Inl IndexError else Inr (last xs))"

definition iloc_first :: "'a list \<Rightarrow> error + 'a" where
  "iloc_first xs = (case xs of [] \<Rightarrow> Inl IndexError | x # _ \<Rightarrow> Inr x)"

section \<open>The pipeline\<close>

text \<open>The functions of \<^verbatim>\<open>utils.py\<close>. Each one copies its frame and adds columns. In
  \<^verbatim>\<open>calculate_indicators\<close> the column \<^verbatim>\<open>Signal\<close> is first set to 0.0 and then overwritten
  on every row, so only the second assignment shows in the result.\<close>

definition calculate_indicators ::
  "price_frame \<Rightarrow> int \<Rightarrow> int \<Rightarrow> error + indicator_frame" where
  "calculate_indicators df short_window long_window =
     (case ewm_mean round_f64 short_window (Close df) of
        Inl e \<Rightarrow> Inl e
      | Inr ema_short \<Rightarrow>
          (case ewm_mean round_f64 long_window (Close df) of
             Inl e \<Rightarrow> Inl e
           | Inr ema_long \<Rightarrow>
               let signal = np_where_gt ema_short ema_long
               in Inr \<lparr>Date = Date df, Open = Open df, High = High df, Low = Low df,
                       Close = Close df, Volume = Volume df,
                       EMA_Short = ema_short, EMA_Long = ema_long,
                       Signal = signal, Position = diff_col signal\<rparr>))"

definition calculate_backtest :: "indicator_frame \<Rightarrow> real \<Rightarrow> backtest_frame" where
  "calculate_backtest df capital =
     (let strategy_signal = shift1 (Signal df);
          log_returns = map np_log (map2 fdiv (map Some (Close df)) (shift1 (Close df)));
          strategy_returns = map2 fmul strategy_signal log_returns;
          cum_benchmark = map np_exp (cumsum log_returns);
          cum_strategy = map np_exp (cumsum strategy_returns)
      in \<lparr>Date = Date df, Open = Open df, High = High df, Low = Low df,
           Close = Close df, Volume = Volume df,
           EMA_Short = EMA_Short df, EMA_Long = EMA_Long df,
           Signal = Signal df, Position = Position df,
           Strategy_Signal = strategy_signal, Log_Returns = log_returns,
           Strategy_Returns = strategy_returns,
           Cum_Benchmark = cum_benchmark, Cum_Strategy = cum_strategy,
           Equity_Benchmark = map (\<lambda>c. fmul c (Some capital)) cum_benchmark,
           Equity_Strategy = map (\<lambda>c. fmul c (Some capital)) cum_strategy\<rparr>)"

text \<open>The numbers behind the table of \<^verbatim>\<open>calculate_metrics\<close>; their formatting as text
  is not modelled.\<close>

record metrics =
  total_return :: cell
  bh_return :: cell
  cagr :: cell
  max_dd :: cell

definition calculate_metrics :: "backtest_frame \<Rightarrow> real \<Rightarrow> error + metrics" where
  "calculate_metrics df capital =
     (case iloc_last (Equity_Strategy df) of
        Inl e \<Rightarrow> Inl e
      | Inr final_strategy \<Rightarrow>
     (case iloc_last (Equity_Benchmark df) of
        Inl e \<Rightarrow> Inl e
      | Inr final_benchmark \<Rightarrow>
     (case iloc_last (Date df) of
        Inl e \<Rightarrow> Inl e
      | Inr last_date \<Rightarrow>
     (case iloc_first (Date df) of
        Inl e \<Rightarrow> Inl e
      | Inr first_date \<Rightarrow>
          let days = last_date - first_date;
              years = max (real_of_int days / 365.25) 0.01;
              rolling_max = cummax (Equity_Strategy df);
              drawdown = map2 (\<lambda>e m. fsub (fdiv e m) (Some 1)) (Equity_Strategy df) rolling_max
          in Inr \<lparr>total_return = fsub (fdiv final_strategy (Some capital)) (Some 1),
                   bh_return = fsub (fdiv final_benchmark (Some capital)) (Some 1),
                   cagr = fsub (fpow (fdiv final_strategy (Some capital)) (1 / years)) (Some 1),
                   max_dd = series_min drawdown\<rparr>))))"

text \<open>The Monte Carlo simulation. The standard normal draws of
  \<^verbatim>\<open>np.random.normal(0, 1, (time_horizon, simulations))\<close> are the parameter \<open>z\<close>: \<open>z t i\<close>
  is the shock of path \<open>i\<close> on day \<open>t\<close>. The clock read by \<^verbatim>\<open>datetime.now()\<close> is the
  parameter \<open>now\<close>, a day number.\<close>

record simulation_result =
  dates :: "int list"
  price_paths :: "cell list list"
  final_prices :: "cell list"

text \<open>The historical returns and their statistics, the first three statements of
  \<^verbatim>\<open>run_monte_carlo_simulation\<close>.\<close>

definition mc_returns :: "price_frame \<Rightarrow> real list" where
  "mc_returns df = dropna (pct_change (Close df))"

definition mc_mu :: "price_frame \<Rightarrow> cell" where
  "mc_mu df = series_mean (mc_returns df)"

definition mc_sigma :: "price_frame \<Rightarrow> cell" where
  "mc_sigma df = series_std (mc_returns df)"

text \<open>The loop \<^verbatim>\<open>for t in range(1, time_horizon)\<close>: each row is the row above times the
  daily returns of the day.\<close>

fun walk_paths :: "cell list \<Rightarrow> cell list list \<Rightarrow> cell list list" where
  "walk_paths prev [] = []"
| "walk_paths prev (r # rs) = (let cur = map2 fmul prev r in cur # walk_paths cur rs)"

definition run_monte_carlo_simulation ::
  "price_frame \<Rightarrow> nat \<Rightarrow> nat \<Rightarrow> (nat \<Rightarrow> nat \<Rightarrow> real) \<Rightarrow> int \<Rightarrow> error + simulation_result" where
  "run_monte_carlo_simulation df simulations time_horizon z now =
     (let mu = mc_mu df;
          sigma = mc_sigma df
      in case iloc_last (Close df) of
           Inl e \<Rightarrow> Inl e
         | Inr start_price \<Rightarrow>
             let random_shocks = map (\<lambda>t. map (z t) [0..<simulations]) [0..<time_horizon];
                 drift = fsub mu (fmul (Some 0.5) (fmul sigma sigma));
                 daily_returns =
                   map (map (\<lambda>s. np_exp (fadd drift (fmul sigma (Some s))))) random_shocks
             in if time_horizon = 0 then Inl IndexError
                else let row0 = replicate simulations (Some start_price);
                         paths = row0 # walk_paths row0 (tl daily_returns)
                     in Inr \<lparr>dates = map (\<lambda>i. now + int i) [0..<time_horizon],
                              price_paths = paths,
                              final_prices = last paths\<rparr>)"

text \<open>\<^verbatim>\<open>run_backtest_calc\<close> of \<^verbatim>\<open>server.py\<close>: the indicators, then the backtest.\<close>

definition run_backtest_calc :: "price_frame \<Rightarrow> int \<Rightarrow> int \<Rightarrow> real \<Rightarrow> error + backtest_frame" where
  "run_backtest_calc df short_ma long_ma capital =
     (case calculate_indicators df short_ma long_ma of
        Inl e \<Rightarrow> Inl e
      | Inr analyzed \<Rightarrow> Inr (calculate_backtest analyzed capital))"

section \<open>Notions of the specification\<close>

text \<open>The population variance and standard deviation of a column: the squared deviations
  from the mean, divided by the number of rows.\<close>

definition population_variance :: "real list \<Rightarrow> real" where
  "population_variance xs =
     (let m = sum_list xs / real (length xs)
      in sum_list (map (\<lambda>x. (x - m)\<^sup>2) xs) / real (length xs))"

definition population_std :: "real list \<Rightarrow> cell" where
  "population_std xs = (if xs = [] then None else Some (sqrt (population_variance xs)))"


text \<open>The maximum drawdown in the words of the specification: the running maximum of an
  equity curve on row \<open>t\<close> is the greatest number on the rows \<open>0..t\<close>, the drawdown of a row
  is its equity over the running maximum, less one, and the maximum drawdown is the least
  drawdown over the rows that hold a number.\<close>

definition running_max_spec :: "cell list \<Rightarrow> nat \<Rightarrow> real" where
  "running_max_spec e t = Max (set (dropna (take (Suc t) e)))"

definition drawdown_spec :: "cell list \<Rightarrow> nat \<Rightarrow> real" where
  "drawdown_spec e t = the (e ! t) / running_max_spec e t - 1"

definition max_drawdown_spec :: "cell list \<Rightarrow> real" where
  "max_drawdown_spec e =
     Min (set (map (drawdown_spec e) (filter (\<lambda>t. e ! t \<noteq> None) [0..<length e])))"

section \<open>Example frames\<close>

text \<open>Five closes, smoothed with the windows 2 and 3: the short EMA is 100,
  101.33333333333334, 101.11111111111111, 103.70370370370371, 107.90123456790124 in
  float64.\<close>

definition scenario_A :: price_frame where
  "scenario_A =
     \<lparr>Date = [0, 1, 2, 3, 4], Open = [100, 102, 101, 105, 110],
      High = [100, 102, 101, 105, 110], Low = [100, 102, 101, 105, 110],
      Close = [100, 102, 101, 105, 110], Volume = [10, 10, 10, 10, 10]\<rparr>"

definition scenario_A_table :: indicator_frame where
  "scenario_A_table =
     \<lparr>Date = [0, 1, 2, 3, 4], Open = [100, 102, 101, 105, 110],
      High = [100, 102, 101, 105, 110], Low = [100, 102, 101, 105, 110],
      Close = [100, 102, 101, 105, 110], Volume = [10, 10, 10, 10, 10],
      EMA_Short = [100, 3565349705001643 / 35184372088832, 3557530955648569 / 35184372088832,
                   7297499396202193 / 70368744177664, 3796437185881379 / 35184372088832],
      EMA_Long = [100, 101, 101, 103, 213 / 2],
      Signal = [0, 1, 1, 1, 1],
      Position = [None, Some 1, Some 0, Some 0, Some 0]\<rparr>"

text \<open>A table whose signal is 1 on every row.\<close>

definition always_bullish_table :: indicator_frame where
  "always_bullish_table =
     \<lparr>Date = [0, 1, 2], Open = [100, 110, 99], High = [100, 110, 99], Low = [100, 110, 99],
      Close = [100, 110, 99], Volume = [10, 10, 10],
      EMA_Short = [101, 111, 100], EMA_Long = [100, 110, 99],
      Signal = [1, 1, 1], Position = [None, Some 0, Some 0]\<rparr>"

text \<open>A series of one row, and the table and the backtest it gives.\<close>

definition one_row :: price_frame where
  "one_row = \<lparr>Date = [0], Open = [100], High = [100], Low = [100], Close = [100],
               Volume = [10]\<rparr>"

definition one_row_table :: indicator_frame where
  "one_row_table =
     \<lparr>Date = [0], Open = [100], High = [100], Low = [100], Close = [100], Volume = [10],
      EMA_Short = [100], EMA_Long = [100], Signal = [0], Position = [None]\<rparr>"

text \<open>Four closes with the daily changes 1/10, -1/10 and 0.\<close>

definition up_down_flat :: price_frame where
  "up_down_flat =
     \<lparr>Date = [0, 1, 2, 3], Open = [100, 110, 99, 99], High = [100, 110, 99, 99],
      Low = [100, 110, 99, 99], Close = [100, 110, 99, 99], Volume = [10, 10, 10, 10]\<rparr>"

text \<open>Three equal closes.\<close>

definition flat_series :: price_frame where
  "flat_series =
     \<lparr>Date = [0, 1, 2], Open = [100, 100, 100], High = [100, 100, 100],
      Low = [100, 100, 100], Close = [100, 100, 100], Volume = [10, 10, 10]\<rparr>"

text \<open>Shocks for the examples: every draw is 0, or every draw is 1.\<close>

definition zero_shocks :: "nat \<Rightarrow> nat \<Rightarrow> real" where
  "zero_shocks t i = 0"

definition unit_shocks :: "nat \<Rightarrow> nat \<Rightarrow> real" where
  "unit_shocks t i = 1"

text \<open>A frame without rows.\<close>

definition no_rows :: price_frame where
  "no_rows = \<lparr>Date = [], Open = [], High = [], Low = [], Close = [], Volume = []\<rparr>"

text \<open>A table whose closes rise and whose signal is 1 on every row.\<close>

definition rising_table :: indicator_frame where
  "rising_table =
     \<lparr>Date = [0, 1, 2], Open = [100, 110, 132], High = [100, 110, 132],
      Low = [100, 110, 132], Close = [100, 110, 132], Volume = [10, 10, 10],
      EMA_Short = [101, 111, 133], EMA_Long = [100, 110, 132],
      Signal = [1, 1, 1], Position = [None, Some 0, Some 0]\<rparr>"



section \<open>Basic facts about the column operations\<close>

lemma length_shift1 [simp]: "length (shift1 xs) = length xs"
  by (cases xs) simp_all

lemma shift1_nth:
  "t < length xs \<Longrightarrow> shift1 xs ! t = (if t = 0 then None else Some (xs ! (t - 1)))"
  by (cases xs; cases t) (simp_all add: nth_butlast del: butlast.simps)

lemma length_cumsum_from [simp]: "length (cumsum_from acc xs) = length xs"
  by (induction acc xs rule: cumsum_from.induct) simp_all

lemma length_ewm_from [simp]: "length (ewm_from rnd alpha old_wt weighted xs) = length xs"
  by (induction xs arbitrary: weighted) (simp_all add: Let_def)

lemma ewm_mean_Inr: "1 \<le> w \<Longrightarrow> \<exists>ys. ewm_mean rnd w xs = Inr ys \<and> length ys = length xs"
  by (cases xs) (simp_all add: ewm_mean_def Let_def)






text \<open>Evaluating \<open>round_f64\<close>: a real whose mantissa, scaled to 53 bits, is within a half
  of the integer \<open>n\<close> rounds to \<open>n\<close>; one that is exactly a half above \<open>n\<close> rounds to the
  even one of \<open>n\<close> and \<open>n + 1\<close>.\<close>

lemma round_even_eqI:
  assumes "\<bar>y - of_int n\<bar> < 1 / 2"
  shows "round_even y = n"
proof (cases "of_int n \<le> y")
  case True
  then have f: "\<lfloor>y\<rfloor> = n" using assms by (intro floor_unique) auto
  show ?thesis using assms True by (simp add: round_even_def f Let_def)
next
  case False
  then have f: "\<lfloor>y\<rfloor> = n - 1" using assms by (intro floor_unique) auto
  show ?thesis using assms False by (auto simp add: round_even_def f Let_def)
qed

lemma floor_log2_eqI:
  assumes "2 powr of_int k \<le> x" and "x < 2 powr of_int (k + 1)"
  shows "\<lfloor>log 2 x\<rfloor> = k"
proof -
  have x: "0 < x" using assms(1) by (smt (verit) powr_gt_zero)
  have "of_int k \<le> log 2 x"
    using assms(1) x by (simp add: le_log_iff)
  moreover have "log 2 x < of_int k + 1"
    using assms(2) x by (simp add: log_less_iff)
  ultimately show ?thesis by (intro floor_unique) auto
qed

lemma round_f64_eqI:
  assumes "2 ^ 52 \<le> \<bar>x\<bar> * 2 ^ p" and "\<bar>x\<bar> * 2 ^ p < 2 ^ 53"
    and "\<bar>x * 2 ^ p - of_int n\<bar> < 1 / 2"
  shows "round_f64 x = of_int n / 2 ^ p"
proof -
  have x0: "x \<noteq> 0" using assms(1) by auto
  have pw: "(2::real) powr (real k - real p) = 2 ^ k / 2 ^ p" for k :: nat
    by (simp add: powr_diff powr_realpow)
  have p2: "(2::real) powr of_int (52 - int p) = 2 ^ 52 / 2 ^ p"
    using pw [of 52] by simp
  have p3: "(2::real) powr of_int (52 - int p + 1) = 2 ^ 53 / 2 ^ p"
    using pw [of 53] by (simp add: algebra_simps)
  have "2 powr of_int (52 - int p) \<le> \<bar>x\<bar>"
    unfolding p2 using assms(1) by (simp add: field_simps)
  moreover have "\<bar>x\<bar> < 2 powr of_int (52 - int p + 1)"
    unfolding p3 using assms(2) by (simp add: field_simps)
  ultimately have e: "\<lfloor>log 2 \<bar>x\<bar>\<rfloor> = 52 - int p"
    by (rule floor_log2_eqI)
  have q: "(2::real) powr (- real p) = 1 / 2 ^ p"
    by (simp add: powr_minus powr_realpow field_simps)
  have "round_even (x / (1 / 2 ^ p)) = n"
    using assms(3) by (intro round_even_eqI) simp
  then show ?thesis
    using x0 by (simp add: round_f64_def e q Let_def)
qed

lemma round_even_tieI:
  assumes "y = of_int n + 1 / 2"
  shows "round_even y = (if even n then n else n + 1)"
proof -
  have f: "\<lfloor>y\<rfloor> = n" using assms by (intro floor_unique) auto
  show ?thesis using assms by (simp add: round_even_def f Let_def)
qed

lemma floor_log2_shift:
  assumes "2 ^ 52 \<le> \<bar>x\<bar> * 2 ^ p" and "\<bar>x\<bar> * 2 ^ p < 2 ^ 53"
  shows "\<lfloor>log 2 \<bar>x\<bar>\<rfloor> = 52 - int p"
proof -
  have pw: "(2::real) powr (real k - real p) = 2 ^ k / 2 ^ p" for k :: nat
    by (simp add: powr_diff powr_realpow)
  have p2: "(2::real) powr of_int (52 - int p) = 2 ^ 52 / 2 ^ p"
    using pw [of 52] by simp
  have p3: "(2::real) powr of_int (52 - int p + 1) = 2 ^ 53 / 2 ^ p"
    using pw [of 53] by (simp add: algebra_simps)
  have "2 powr of_int (52 - int p) \<le> \<bar>x\<bar>"
    unfolding p2 using assms(1) by (simp add: field_simps)
  moreover have "\<bar>x\<bar> < 2 powr of_int (52 - int p + 1)"
    unfolding p3 using assms(2) by (simp add: field_simps)
  ultimately show ?thesis
    by (rule floor_log2_eqI)
qed

lemma round_f64_tieI:
  assumes "2 ^ 52 \<le> \<bar>x\<bar> * 2 ^ p" and "\<bar>x\<bar> * 2 ^ p < 2 ^ 53"
    and "x * 2 ^ p = of_int n + 1 / 2"
  shows "round_f64 x = of_int (if even n then n else n + 1) / 2 ^ p"
proof -
  have x0: "x \<noteq> 0" using assms(1) by auto
  have e: "\<lfloor>log 2 \<bar>x\<bar>\<rfloor> = 52 - int p"
    using assms(1,2) by (rule floor_log2_shift)
  have q: "(2::real) powr (- real p) = 1 / 2 ^ p"
    by (simp add: powr_minus powr_realpow field_simps)
  have "round_even (x / (1 / 2 ^ p)) = (if even n then n else n + 1)"
    using assms(3) by (intro round_even_tieI) simp
  then show ?thesis
    using x0 by (simp add: round_f64_def e q Let_def)
qed



lemma ewm_scenario_A_2:
  "ewm_mean round_f64 2 [100, 102, 101, 105, 110] =
     Inr [100, 3565349705001643 / 35184372088832, 3557530955648569 / 35184372088832, 7297499396202193 / 70368744177664, 3796437185881379 / 35184372088832]"
proof -
  have a: "round_f64 (1 / (1 + (real_of_int 2 - 1) / 2)) = 6004799503160661 / 9007199254740992"
    using round_f64_eqI [where x = "1 / (1 + (real_of_int 2 - 1) / 2)" and n = 6004799503160661 and p = 53] by simp
  have w: "round_f64 (1 - 6004799503160661 / 9007199254740992) = 3002399751580331 / 9007199254740992"
    using round_f64_eqI [where x = "1 - 6004799503160661 / 9007199254740992" and n = 6004799503160662 and p = 54] by simp
  have m1: "round_f64 ((3002399751580331 / 9007199254740992) * 100) = 4691249611844267 / 140737488355328"
    using round_f64_eqI [where x = "(3002399751580331 / 9007199254740992) * 100" and n = 4691249611844267 and p = 47] by simp
  have n1: "round_f64 ((6004799503160661 / 9007199254740992) * 102) = 68"
    using round_f64_eqI [where x = "(6004799503160661 / 9007199254740992) * 102" and n = 4785074604081152 and p = 46] by simp
  have s1: "round_f64 (4691249611844267 / 140737488355328 + 68) = 3565349705001643 / 35184372088832"
    using round_f64_tieI [where x = "4691249611844267 / 140737488355328 + 68" and n = 7130699410003285 and p = 46] by simp
  have d1: "round_f64 (3002399751580331 / 9007199254740992 + 6004799503160661 / 9007199254740992) = 1"
    using round_f64_eqI [where x = "3002399751580331 / 9007199254740992 + 6004799503160661 / 9007199254740992" and n = 4503599627370496 and p = 52] by simp
  have q1: "round_f64 ((3565349705001643 / 35184372088832) / 1) = 3565349705001643 / 35184372088832"
    using round_f64_eqI [where x = "(3565349705001643 / 35184372088832) / 1" and n = 7130699410003286 and p = 46] by simp
  have e1: "ewm_next round_f64 (6004799503160661 / 9007199254740992) (3002399751580331 / 9007199254740992) 100 102 = 3565349705001643 / 35184372088832"
    unfolding ewm_next_def m1 n1 s1 d1 q1 by simp
  have m2: "round_f64 ((3002399751580331 / 9007199254740992) * (3565349705001643 / 35184372088832)) = 2376899803334429 / 70368744177664"
    using round_f64_eqI [where x = "(3002399751580331 / 9007199254740992) * (3565349705001643 / 35184372088832)" and n = 4753799606668858 and p = 47] by simp
  have n2: "round_f64 ((6004799503160661 / 9007199254740992) * 101) = 4738162107962709 / 70368744177664"
    using round_f64_eqI [where x = "(6004799503160661 / 9007199254740992) * 101" and n = 4738162107962709 and p = 46] by simp
  have s2: "round_f64 (2376899803334429 / 70368744177664 + 4738162107962709 / 70368744177664) = 3557530955648569 / 35184372088832"
    using round_f64_eqI [where x = "2376899803334429 / 70368744177664 + 4738162107962709 / 70368744177664" and n = 7115061911297138 and p = 46] by simp
  have d2: "round_f64 (3002399751580331 / 9007199254740992 + 6004799503160661 / 9007199254740992) = 1"
    using round_f64_eqI [where x = "3002399751580331 / 9007199254740992 + 6004799503160661 / 9007199254740992" and n = 4503599627370496 and p = 52] by simp
  have q2: "round_f64 ((3557530955648569 / 35184372088832) / 1) = 3557530955648569 / 35184372088832"
    using round_f64_eqI [where x = "(3557530955648569 / 35184372088832) / 1" and n = 7115061911297138 and p = 46] by simp
  have e2: "ewm_next round_f64 (6004799503160661 / 9007199254740992) (3002399751580331 / 9007199254740992) (3565349705001643 / 35184372088832) 101 = 3557530955648569 / 35184372088832"
    unfolding ewm_next_def m2 n2 s2 d2 q2 by simp
  have m3: "round_f64 ((3002399751580331 / 9007199254740992) * (3557530955648569 / 35184372088832)) = 2371687303765713 / 70368744177664"
    using round_f64_eqI [where x = "(3002399751580331 / 9007199254740992) * (3557530955648569 / 35184372088832)" and n = 4743374607531426 and p = 47] by simp
  have n3: "round_f64 ((6004799503160661 / 9007199254740992) * 105) = 70"
    using round_f64_eqI [where x = "(6004799503160661 / 9007199254740992) * 105" and n = 4925812092436480 and p = 46] by simp
  have s3: "round_f64 (2371687303765713 / 70368744177664 + 70) = 7297499396202193 / 70368744177664"
    using round_f64_eqI [where x = "2371687303765713 / 70368744177664 + 70" and n = 7297499396202193 and p = 46] by simp
  have d3: "round_f64 (3002399751580331 / 9007199254740992 + 6004799503160661 / 9007199254740992) = 1"
    using round_f64_eqI [where x = "3002399751580331 / 9007199254740992 + 6004799503160661 / 9007199254740992" and n = 4503599627370496 and p = 52] by simp
  have q3: "round_f64 ((7297499396202193 / 70368744177664) / 1) = 7297499396202193 / 70368744177664"
    using round_f64_eqI [where x = "(7297499396202193 / 70368744177664) / 1" and n = 7297499396202193 and p = 46] by simp
  have e3: "ewm_next round_f64 (6004799503160661 / 9007199254740992) (3002399751580331 / 9007199254740992) (3557530955648569 / 35184372088832) 105 = 7297499396202193 / 70368744177664"
    unfolding ewm_next_def m3 n3 s3 d3 q3 by simp
  have m4: "round_f64 ((3002399751580331 / 9007199254740992) * (7297499396202193 / 70368744177664)) = 4864999597468129 / 140737488355328"
    using round_f64_eqI [where x = "(3002399751580331 / 9007199254740992) * (7297499396202193 / 70368744177664)" and n = 4864999597468129 and p = 47] by simp
  have n4: "round_f64 ((6004799503160661 / 9007199254740992) * 110) = 5160374573028693 / 70368744177664"
    using round_f64_eqI [where x = "(6004799503160661 / 9007199254740992) * 110" and n = 5160374573028693 and p = 46] by simp
  have s4: "round_f64 (4864999597468129 / 140737488355328 + 5160374573028693 / 70368744177664) = 3796437185881379 / 35184372088832"
    using round_f64_tieI [where x = "4864999597468129 / 140737488355328 + 5160374573028693 / 70368744177664" and n = 7592874371762757 and p = 46] by simp
  have d4: "round_f64 (3002399751580331 / 9007199254740992 + 6004799503160661 / 9007199254740992) = 1"
    using round_f64_eqI [where x = "3002399751580331 / 9007199254740992 + 6004799503160661 / 9007199254740992" and n = 4503599627370496 and p = 52] by simp
  have q4: "round_f64 ((3796437185881379 / 35184372088832) / 1) = 3796437185881379 / 35184372088832"
    using round_f64_eqI [where x = "(3796437185881379 / 35184372088832) / 1" and n = 7592874371762758 and p = 46] by simp
  have e4: "ewm_next round_f64 (6004799503160661 / 9007199254740992) (3002399751580331 / 9007199254740992) (7297499396202193 / 70368744177664) 110 = 3796437185881379 / 35184372088832"
    unfolding ewm_next_def m4 n4 s4 d4 q4 by simp
  show ?thesis
    unfolding ewm_mean_def ewm_alpha_def Let_def list.case ewm_from.simps
      a w e1 e2 e3 e4
    by simp
qed

lemma ewm_scenario_A_3:
  "ewm_mean round_f64 3 [100, 102, 101, 105, 110] =
     Inr [100, 101, 101, 103, 213 / 2]"
proof -
  have a: "round_f64 (1 / (1 + (real_of_int 3 - 1) / 2)) = 1 / 2"
    using round_f64_eqI [where x = "1 / (1 + (real_of_int 3 - 1) / 2)" and n = 4503599627370496 and p = 53] by simp
  have w: "round_f64 (1 - 1 / 2) = 1 / 2"
    using round_f64_eqI [where x = "1 - 1 / 2" and n = 4503599627370496 and p = 53] by simp
  have m1: "round_f64 ((1 / 2) * 100) = 50"
    using round_f64_eqI [where x = "(1 / 2) * 100" and n = 7036874417766400 and p = 47] by simp
  have n1: "round_f64 ((1 / 2) * 102) = 51"
    using round_f64_eqI [where x = "(1 / 2) * 102" and n = 7177611906121728 and p = 47] by simp
  have s1: "round_f64 (50 + 51) = 101"
    using round_f64_eqI [where x = "50 + 51" and n = 7107243161944064 and p = 46] by simp
  have d1: "round_f64 (1 / 2 + 1 / 2) = 1"
    using round_f64_eqI [where x = "1 / 2 + 1 / 2" and n = 4503599627370496 and p = 52] by simp
  have q1: "round_f64 (101 / 1) = 101"
    using round_f64_eqI [where x = "101 / 1" and n = 7107243161944064 and p = 46] by simp
  have e1: "ewm_next round_f64 (1 / 2) (1 / 2) 100 102 = 101"
    unfolding ewm_next_def m1 n1 s1 d1 q1 by simp
  have e2: "ewm_next round_f64 (1 / 2) (1 / 2) 101 101 = 101"
    unfolding ewm_next_def by simp
  have m3: "round_f64 ((1 / 2) * 101) = 101 / 2"
    using round_f64_eqI [where x = "(1 / 2) * 101" and n = 7107243161944064 and p = 47] by simp
  have n3: "round_f64 ((1 / 2) * 105) = 105 / 2"
    using round_f64_eqI [where x = "(1 / 2) * 105" and n = 7388718138654720 and p = 47] by simp
  have s3: "round_f64 (101 / 2 + 105 / 2) = 103"
    using round_f64_eqI [where x = "101 / 2 + 105 / 2" and n = 7247980650299392 and p = 46] by simp
  have d3: "round_f64 (1 / 2 + 1 / 2) = 1"
    using round_f64_eqI [where x = "1 / 2 + 1 / 2" and n = 4503599627370496 and p = 52] by simp
  have q3: "round_f64 (103 / 1) = 103"
    using round_f64_eqI [where x = "103 / 1" and n = 7247980650299392 and p = 46] by simp
  have e3: "ewm_next round_f64 (1 / 2) (1 / 2) 101 105 = 103"
    unfolding ewm_next_def m3 n3 s3 d3 q3 by simp
  have m4: "round_f64 ((1 / 2) * 103) = 103 / 2"
    using round_f64_eqI [where x = "(1 / 2) * 103" and n = 7247980650299392 and p = 47] by simp
  have n4: "round_f64 ((1 / 2) * 110) = 55"
    using round_f64_eqI [where x = "(1 / 2) * 110" and n = 7740561859543040 and p = 47] by simp
  have s4: "round_f64 (103 / 2 + 55) = 213 / 2"
    using round_f64_eqI [where x = "103 / 2 + 55" and n = 7494271254921216 and p = 46] by simp
  have d4: "round_f64 (1 / 2 + 1 / 2) = 1"
    using round_f64_eqI [where x = "1 / 2 + 1 / 2" and n = 4503599627370496 and p = 52] by simp
  have q4: "round_f64 ((213 / 2) / 1) = 213 / 2"
    using round_f64_eqI [where x = "(213 / 2) / 1" and n = 7494271254921216 and p = 46] by simp
  have e4: "ewm_next round_f64 (1 / 2) (1 / 2) 103 110 = 213 / 2"
    unfolding ewm_next_def m4 n4 s4 d4 q4 by simp
  show ?thesis
    unfolding ewm_mean_def ewm_alpha_def Let_def list.case ewm_from.simps
      a w e1 e2 e3 e4
    by simp
qed

lemma scenario_A_indicators: "calculate_indicators scenario_A 2 3 = Inr scenario_A_table"
  by (simp add: calculate_indicators_def ewm_scenario_A_2 ewm_scenario_A_3 np_where_gt_def
      diff_col_def fsub_def scenario_A_def scenario_A_table_def Let_def)


lemma length_diff_col [simp]: "length (diff_col xs) = length xs"
  by (simp add: diff_col_def)

lemma length_np_where_gt [simp]: "length (np_where_gt xs ys) = min (length xs) (length ys)"
  by (simp add: np_where_gt_def)

lemma fmul_one_left [simp]: "fmul (Some 1) c = c"
  by (cases c) (simp_all add: fmul_def)

lemma fmul_None [simp]: "fmul None c = None" "fmul c None = None"
  by (cases c; simp add: fmul_def)+

lemma log_returns_hd:
  "xs \<noteq> [] \<Longrightarrow> map np_log (map2 fdiv (map Some xs) (shift1 xs)) ! 0 = None"
  by (cases xs) simp_all

lemma fmul_Some [simp]: "fmul (Some a) (Some b) = Some (a * b)"
  by (simp add: fmul_def)

lemma cumsum_from_Some_nth:
  "t < length ys \<Longrightarrow> cumsum_from acc (map Some ys) ! t = Some (acc + (\<Sum>k\<le>t. ys ! k))"
proof (induction ys arbitrary: acc t)
  case Nil
  then show ?case by simp
next
  case (Cons y ys)
  show ?case
  proof (cases t)
    case 0
    then show ?thesis by simp
  next
    case (Suc j)
    with Cons.prems have j: "j < length ys" by simp
    have "(\<Sum>k\<le>Suc j. (y # ys) ! k) = y + (\<Sum>k\<le>j. ys ! k)"
      by (simp add: sum.atMost_Suc_shift del: sum.atMost_Suc)
    with Cons.IH [OF j, of "acc + y"] show ?thesis
      using Suc by simp
  qed
qed

text \<open>The log returns of positive closes: NaN on row 0, a number on every later row.\<close>

lemma log_returns_pos:
  assumes "\<forall>c \<in> set xs. 0 < c"
  shows "map np_log (map2 fdiv (map Some xs) (shift1 xs)) =
         (case xs of [] \<Rightarrow> [] | _ \<Rightarrow> None # map (\<lambda>k. Some (ln (xs ! Suc k / xs ! k))) [0..<length xs - 1])"
proof (cases xs)
  case Nil
  then show ?thesis by simp
next
  case (Cons x rest)
  have "map np_log (map2 fdiv (map Some xs) (shift1 xs)) =
        None # map (\<lambda>k. Some (ln (xs ! Suc k / xs ! k))) [0..<length xs - 1]"
  proof (rule nth_equalityI)
    show "length (map np_log (map2 fdiv (map Some xs) (shift1 xs))) =
          length (None # map (\<lambda>k. Some (ln (xs ! Suc k / xs ! k))) [0..<length xs - 1])"
      using Cons by simp
  next
    fix t assume "t < length (map np_log (map2 fdiv (map Some xs) (shift1 xs)))"
    then have t: "t < length xs" by simp
    show "map np_log (map2 fdiv (map Some xs) (shift1 xs)) ! t =
          (None # map (\<lambda>k. Some (ln (xs ! Suc k / xs ! k))) [0..<length xs - 1]) ! t"
    proof (cases t)
      case 0
      then show ?thesis using t by (simp add: shift1_nth)
    next
      case (Suc k)
      have "0 < xs ! k" "0 < xs ! Suc k" using assms t Suc by simp_all
      moreover have "k < length xs - 1" using t Suc by simp
      ultimately show ?thesis using t Suc by (simp add: shift1_nth)
    qed
  qed
  then show ?thesis using Cons by simp
qed

text \<open>The strategy returns of positive closes.\<close>

lemma strategy_returns_pos:
  assumes "length sig = length xs" and "\<forall>c \<in> set xs. 0 < c" and "xs \<noteq> []"
  shows "map2 fmul (shift1 sig) (map np_log (map2 fdiv (map Some xs) (shift1 xs))) =
         None # map Some (map (\<lambda>k. sig ! k * ln (xs ! Suc k / xs ! k)) [0..<length xs - 1])"
proof -
  let ?lr = "map np_log (map2 fdiv (map Some xs) (shift1 xs))"
  let ?ys = "map (\<lambda>k. sig ! k * ln (xs ! Suc k / xs ! k)) [0..<length xs - 1]"
  have lr: "?lr = None # map (\<lambda>k. Some (ln (xs ! Suc k / xs ! k))) [0..<length xs - 1]"
    using log_returns_pos [OF assms(2)] assms(3) by (cases xs) simp_all
  show ?thesis
  proof (rule nth_equalityI)
    show "length (map2 fmul (shift1 sig) ?lr) = length (None # map Some ?ys)"
      using assms(1,3) by (cases xs) simp_all
  next
    fix t assume "t < length (map2 fmul (shift1 sig) ?lr)"
    then have t: "t < length xs" "t < length sig" using assms(1) by simp_all
    show "map2 fmul (shift1 sig) ?lr ! t = (None # map Some ?ys) ! t"
    proof (cases t)
      case 0
      then show ?thesis using t by (simp add: shift1_nth)
    next
      case (Suc k)
      have "k < length xs - 1" using t Suc by simp
      then have "?lr ! t = Some (ln (xs ! Suc k / xs ! k))"
        using t Suc by (simp only: lr) simp
      then show ?thesis using t Suc by (simp add: shift1_nth)
    qed
  qed
qed

lemma cumsum_from_map_Some:
  "\<exists>zs. cumsum_from acc (map Some ys) = map Some zs \<and> length zs = length ys"
proof (induction ys arbitrary: acc)
  case Nil
  then show ?case by simp
next
  case (Cons y ys)
  from Cons [of "acc + y"] obtain zs
    where "cumsum_from (acc + y) (map Some ys) = map Some zs" "length zs = length ys"
    by blast
  then have "cumsum_from acc (map Some (y # ys)) = map Some ((acc + y) # zs) \<and>
             length ((acc + y) # zs) = length (y # ys)"
    by simp
  then show ?case by blast
qed

section \<open>The first row of the equity curves\<close>

text \<open>
  Claim C1, as amended. The claim says that both equity curves equal the capital at the
  first row. In the code the first row of \<^verbatim>\<open>Log_Returns\<close> and of \<^verbatim>\<open>Strategy_Returns\<close> is
  NaN, because \<^verbatim>\<open>shift(1)\<close> leaves it empty; \<^verbatim>\<open>cumsum\<close> keeps a NaN row NaN, and so do
  \<^verbatim>\<open>np.exp\<close> and the product with the capital. For every table with at least one row and
  every capital, the first row of \<^verbatim>\<open>Equity_Benchmark\<close> and of \<^verbatim>\<open>Equity_Strategy\<close> is
  therefore NaN, and both curves have one row per row of the table.
\<close>

theorem backtest_first_row_is_nan:
  assumes "Close df \<noteq> []" and "length (Signal df) = length (Close df)"
  shows "Equity_Benchmark (calculate_backtest df capital) ! 0 = None \<and>
         Equity_Strategy (calculate_backtest df capital) ! 0 = None \<and>
         length (Equity_Benchmark (calculate_backtest df capital)) = length (Close df) \<and>
         length (Equity_Strategy (calculate_backtest df capital)) = length (Close df)"
proof -
  obtain c cs where c: "Close df = c # cs"
    using assms(1) by (cases "Close df") auto
  obtain s ss where s: "Signal df = s # ss"
    using assms c by (cases "Signal df") auto
  show ?thesis
    using assms(2)
    by (auto simp add: calculate_backtest_def Let_def cumsum_def fmul_def np_exp_def c s)
qed

theorem backtest_first_row_is_nan_witness:
  "Close scenario_A_table \<noteq> [] \<and>
   length (Signal scenario_A_table) = length (Close scenario_A_table) \<and>
   Equity_Benchmark (calculate_backtest scenario_A_table 1000000) ! 0 = None \<and>
   Equity_Strategy (calculate_backtest scenario_A_table 1000000) ! 0 = None \<and>
   length (Equity_Benchmark (calculate_backtest scenario_A_table 1000000)) = 5 \<and>
   length (Equity_Strategy (calculate_backtest scenario_A_table 1000000)) = 5"
  using backtest_first_row_is_nan [of scenario_A_table 1000000]
  by (simp add: scenario_A_table_def)

text \<open>The claim as stated fails on the five closes above with a capital of 1,000,000.\<close>

theorem backtest_first_row_not_capital:
  "Equity_Benchmark (calculate_backtest scenario_A_table 1000000) ! 0 \<noteq> Some 1000000 \<and>
   Equity_Strategy (calculate_backtest scenario_A_table 1000000) ! 0 \<noteq> Some 1000000"
  by (simp add: calculate_backtest_def Let_def cumsum_def fmul_def np_exp_def
      scenario_A_table_def)

section \<open>The lagged signal\<close>

text \<open>
  Claim C3, as amended. The claim says that the strategy return of row 0 is treated as
  0. In the code it is NaN, as the lagged signal of row 0 is, whatever \<open>signal[0]\<close> is, and
  it is not replaced by 0: the cumulated strategy return and the strategy equity of row 0
  are NaN too, where a return of 0 would give 1 and the capital. For every indicator table
  with positive closes and every capital, the backtest uses on row \<open>t \<ge> 1\<close> the signal of
  row \<open>t - 1\<close>. The cumulative sum skips the NaN of row 0, so on every later row the
  cumulated strategy return is the one that a strategy return of 0 on row 0 would give: on
  row \<open>t + 1\<close> it is the exponential of the sum over \<open>k \<le> t\<close> of \<open>signal[k]\<close> times the log
  return from day \<open>k\<close> to day \<open>k + 1\<close>. The signal of a day is applied to the return of the
  next day only, and day 0 never trades.
\<close>

theorem lagged_signal_no_lookahead:
  assumes "length (Signal df) = length (Close df)" and "\<forall>c \<in> set (Close df). 0 < c"
  shows "(\<forall>t. 1 \<le> t \<and> t < length (Close df) \<longrightarrow>
            Strategy_Signal (calculate_backtest df capital) ! t = Some (Signal df ! (t - 1))) \<and>
         (Close df \<noteq> [] \<longrightarrow>
            Strategy_Signal (calculate_backtest df capital) ! 0 = None \<and>
            Strategy_Returns (calculate_backtest df capital) ! 0 = None \<and>
            Cum_Strategy (calculate_backtest df capital) ! 0 = None \<and>
            Equity_Strategy (calculate_backtest df capital) ! 0 = None) \<and>
         (\<forall>t. Suc t < length (Close df) \<longrightarrow>
            Strategy_Returns (calculate_backtest df capital) ! Suc t =
              Some (Signal df ! t * ln (Close df ! Suc t / Close df ! t))) \<and>
         (\<forall>t. Suc t < length (Close df) \<longrightarrow>
            Cum_Strategy (calculate_backtest df capital) ! Suc t =
              Some (exp (\<Sum>k\<le>t. Signal df ! k * ln (Close df ! Suc k / Close df ! k)))) \<and>
         (Close df \<noteq> [] \<longrightarrow>
            tl (Cum_Strategy (calculate_backtest df capital)) =
            tl (map np_exp (cumsum (Some 0 # tl (Strategy_Returns (calculate_backtest df capital))))))"
proof (cases "Close df")
  case Nil
  then show ?thesis by simp
next
  case (Cons c cs)
  let ?n = "length (Close df)"
  let ?lr = "map np_log (map2 fdiv (map Some (Close df)) (shift1 (Close df)))"
  let ?ys = "map (\<lambda>k. Signal df ! k * ln (Close df ! Suc k / Close df ! k)) [0..<?n - 1]"
  have ne: "Close df \<noteq> []" using Cons by simp
  have sr: "map2 fmul (shift1 (Signal df)) ?lr = None # map Some ?ys"
    by (rule strategy_returns_pos [OF assms(1,2) ne])
  have sig: "Strategy_Signal (calculate_backtest df capital) ! t = Some (Signal df ! (t - 1))"
    if "1 \<le> t" "t < ?n" for t
    using that assms(1) by (simp add: calculate_backtest_def Let_def shift1_nth)
  have row0: "Strategy_Signal (calculate_backtest df capital) ! 0 = None \<and>
              Strategy_Returns (calculate_backtest df capital) ! 0 = None \<and>
              Cum_Strategy (calculate_backtest df capital) ! 0 = None \<and>
              Equity_Strategy (calculate_backtest df capital) ! 0 = None"
    using assms(1) Cons sr
    by (simp add: calculate_backtest_def Let_def shift1_nth cumsum_def np_exp_def)
  have ret: "Strategy_Returns (calculate_backtest df capital) ! Suc t =
              Some (Signal df ! t * ln (Close df ! Suc t / Close df ! t))"
    if "Suc t < ?n" for t
    using that sr by (simp add: calculate_backtest_def Let_def)
  have cum: "Cum_Strategy (calculate_backtest df capital) ! Suc t =
              Some (exp (\<Sum>k\<le>t. Signal df ! k * ln (Close df ! Suc k / Close df ! k)))"
    if "Suc t < ?n" for t
  proof -
    have t: "t < length ?ys" using that by simp
    have "?ys ! x = Signal df ! x * ln (Close df ! Suc x / Close df ! x)" if "x \<le> t" for x
    proof -
      have "x < ?n - 1" using that \<open>Suc t < ?n\<close> by simp
      then show ?thesis by simp
    qed
    then have "(\<Sum>k\<le>t. ?ys ! k) = (\<Sum>k\<le>t. Signal df ! k * ln (Close df ! Suc k / Close df ! k))"
      by (intro sum.cong) simp_all
    with cumsum_from_Some_nth [OF t, of 0] show ?thesis
      using that sr by (simp add: calculate_backtest_def Let_def cumsum_def np_exp_def)
  qed
  have zero: "tl (Cum_Strategy (calculate_backtest df capital)) =
      tl (map np_exp (cumsum (Some 0 # tl (Strategy_Returns (calculate_backtest df capital)))))"
    using sr by (simp add: calculate_backtest_def Let_def cumsum_def)
  show ?thesis using sig row0 ret cum zero by blast
qed

theorem lagged_signal_no_lookahead_witness:
  "length (Signal scenario_A_table) = length (Close scenario_A_table) \<and>
   list_all (\<lambda>c. 0 < c) (Close scenario_A_table) \<and>
   Strategy_Signal (calculate_backtest scenario_A_table 1000000) ! 0 = None \<and>
   Strategy_Returns (calculate_backtest scenario_A_table 1000000) ! 0 = None \<and>
   Cum_Strategy (calculate_backtest scenario_A_table 1000000) ! 0 = None \<and>
   Equity_Strategy (calculate_backtest scenario_A_table 1000000) ! 0 = None \<and>
   Strategy_Signal (calculate_backtest scenario_A_table 1000000) ! 1 = Some 0 \<and>
   Strategy_Signal (calculate_backtest scenario_A_table 1000000) ! 2 = Some 1 \<and>
   Strategy_Returns (calculate_backtest scenario_A_table 1000000) ! Suc (Suc 0)
     = Some (ln (101 / 102)) \<and>
   Cum_Strategy (calculate_backtest scenario_A_table 1000000) ! Suc (Suc 0)
     = Some (101 / 102)"
proof -
  have len: "length (Signal scenario_A_table) = length (Close scenario_A_table)"
    by (simp add: scenario_A_table_def)
  have pos: "\<forall>c \<in> set (Close scenario_A_table). 0 < c"
    by (simp add: scenario_A_table_def)
  note r = lagged_signal_no_lookahead [OF len pos, of 1000000]
  have n: "length (Close scenario_A_table) = 5" "Close scenario_A_table \<noteq> []"
    by (simp_all add: scenario_A_table_def)
  have sig: "Signal scenario_A_table ! 0 = 0" "Signal scenario_A_table ! Suc 0 = 1"
    by (simp_all add: scenario_A_table_def)
  have cl: "Close scenario_A_table ! 0 = 100" "Close scenario_A_table ! Suc 0 = 102"
    "Close scenario_A_table ! Suc (Suc 0) = 101"
    by (simp_all add: scenario_A_table_def)
  from r have s1: "Strategy_Signal (calculate_backtest scenario_A_table 1000000) ! 1 = Some 0"
    using n sig by simp
  from r have s2: "Strategy_Signal (calculate_backtest scenario_A_table 1000000) ! 2 = Some 1"
    using n sig by (simp add: numeral_2_eq_2)
  from r have r0: "Strategy_Signal (calculate_backtest scenario_A_table 1000000) ! 0 = None"
    "Strategy_Returns (calculate_backtest scenario_A_table 1000000) ! 0 = None"
    "Cum_Strategy (calculate_backtest scenario_A_table 1000000) ! 0 = None"
    "Equity_Strategy (calculate_backtest scenario_A_table 1000000) ! 0 = None"
    using n by simp_all
  from r have "Suc (Suc 0) < length (Close scenario_A_table) \<longrightarrow>
      Strategy_Returns (calculate_backtest scenario_A_table 1000000) ! Suc (Suc 0) =
        Some (Signal scenario_A_table ! Suc 0 *
              ln (Close scenario_A_table ! Suc (Suc 0) / Close scenario_A_table ! Suc 0))"
    by blast
  then have r2: "Strategy_Returns (calculate_backtest scenario_A_table 1000000) ! Suc (Suc 0)
      = Some (ln (101 / 102))"
    using n sig cl by simp
  from r have "Suc (Suc 0) < length (Close scenario_A_table) \<longrightarrow>
      Cum_Strategy (calculate_backtest scenario_A_table 1000000) ! Suc (Suc 0) =
        Some (exp (\<Sum>k\<le>Suc 0. Signal scenario_A_table ! k *
                 ln (Close scenario_A_table ! Suc k / Close scenario_A_table ! k)))"
    by blast
  then have c2: "Cum_Strategy (calculate_backtest scenario_A_table 1000000) ! Suc (Suc 0)
      = Some (101 / 102)"
    using n sig cl by simp
  show ?thesis
    using len pos s1 s2 r0 r2 c2 by (simp add: list_all_iff)
qed

text \<open>The claim as stated fails on the five closes of the example with a capital of
  1,000,000: the strategy return of row 0 is not 0, and the cumulated strategy return of
  row 0 is not the one that a strategy return of 0 on row 0 would give.\<close>

theorem strategy_return_row0_not_zero:
  "Strategy_Returns (calculate_backtest scenario_A_table 1000000) ! 0 \<noteq> Some 0 \<and>
   Cum_Strategy (calculate_backtest scenario_A_table 1000000) ! 0 \<noteq>
     map np_exp
       (cumsum (Some 0 # tl (Strategy_Returns (calculate_backtest scenario_A_table 1000000)))) ! 0"
  by (simp add: calculate_backtest_def Let_def cumsum_def np_exp_def scenario_A_table_def)

section \<open>The indicators\<close>




section \<open>Row alignment\<close>

text \<open>
  Claim C9. For every price series (a frame with the same number of rows in every
  column) and all windows of at least 1, the table of \<^verbatim>\<open>calculate_indicators\<close> and the
  table \<^verbatim>\<open>calculate_backtest\<close> makes of it keep the date column and every other source
  column as they are, and every derived column has exactly one row per source row: no
  row is added, dropped or moved.
\<close>

theorem derived_tables_row_aligned:
  assumes "wf_frame df" and "1 \<le> short_window" and "1 \<le> long_window"
  shows "\<exists>ind. calculate_indicators df short_window long_window = Inr ind \<and>
           Date ind = Date df \<and> Open ind = Open df \<and> High ind = High df \<and>
           Low ind = Low df \<and> Close ind = Close df \<and> Volume ind = Volume df \<and>
           length (EMA_Short ind) = length (Date df) \<and>
           length (EMA_Long ind) = length (Date df) \<and>
           length (Signal ind) = length (Date df) \<and>
           length (Position ind) = length (Date df) \<and>
           (let bt = calculate_backtest ind capital
            in Date bt = Date df \<and> Open bt = Open df \<and> High bt = High df \<and>
               Low bt = Low df \<and> Close bt = Close df \<and> Volume bt = Volume df \<and>
               EMA_Short bt = EMA_Short ind \<and> EMA_Long bt = EMA_Long ind \<and>
               Signal bt = Signal ind \<and> Position bt = Position ind \<and>
               length (Strategy_Signal bt) = length (Date df) \<and>
               length (Log_Returns bt) = length (Date df) \<and>
               length (Strategy_Returns bt) = length (Date df) \<and>
               length (Cum_Benchmark bt) = length (Date df) \<and>
               length (Cum_Strategy bt) = length (Date df) \<and>
               length (Equity_Benchmark bt) = length (Date df) \<and>
               length (Equity_Strategy bt) = length (Date df))"
proof -
  obtain es where es: "ewm_mean round_f64 short_window (Close df) = Inr es"
    and les: "length es = length (Close df)"
    using ewm_mean_Inr [OF assms(2)] by blast
  obtain el where el: "ewm_mean round_f64 long_window (Close df) = Inr el"
    and lel: "length el = length (Close df)"
    using ewm_mean_Inr [OF assms(3)] by blast
  have n: "length (Close df) = length (Date df)"
    using assms(1) by (simp add: wf_frame_def)
  show ?thesis
    by (simp add: calculate_indicators_def es el Let_def calculate_backtest_def cumsum_def
        les lel n)
qed

theorem derived_tables_row_aligned_witness:
  "wf_frame scenario_A \<and> (1::int) \<le> 2 \<and> (1::int) \<le> 3 \<and>
   calculate_indicators scenario_A 2 3 = Inr scenario_A_table \<and>
   Date scenario_A_table = Date scenario_A \<and>
   Date (calculate_backtest scenario_A_table 1000000) = Date scenario_A \<and>
   length (Signal scenario_A_table) = 5 \<and>
   length (Position scenario_A_table) = 5 \<and>
   length (Log_Returns (calculate_backtest scenario_A_table 1000000)) = 5 \<and>
   length (Equity_Benchmark (calculate_backtest scenario_A_table 1000000)) = 5 \<and>
   length (Equity_Strategy (calculate_backtest scenario_A_table 1000000)) = 5"
proof -
  have wf: "wf_frame scenario_A"
    by (simp add: wf_frame_def scenario_A_def)
  have n: "length (Date scenario_A) = 5"
    by (simp add: scenario_A_def)
  from derived_tables_row_aligned [OF wf, of 2 3 1000000] show ?thesis
    using wf n by (simp add: scenario_A_indicators Let_def)
qed

section \<open>The benchmark and the strategy\<close>

text \<open>
  Claim C7. For every indicator table whose signal is 1 on every row, and every capital,
  the strategy equity curve of \<^verbatim>\<open>calculate_backtest\<close> is the benchmark equity curve, row
  by row (row 0 is NaN in both). Such a table is an input of the backtest, as in the
  scenario of the specification; \<^verbatim>\<open>calculate_indicators\<close> itself never signals on row 0.
\<close>

theorem always_bullish_equals_benchmark:
  assumes "\<forall>s \<in> set (Signal df). s = 1" and "length (Signal df) = length (Close df)"
  shows "Equity_Strategy (calculate_backtest df capital) =
         Equity_Benchmark (calculate_backtest df capital)"
proof -
  let ?lr = "map np_log (map2 fdiv (map Some (Close df)) (shift1 (Close df)))"
  have len: "length ?lr = length (Close df)" by simp
  have "map2 fmul (shift1 (Signal df)) ?lr = ?lr"
  proof (rule nth_equalityI)
    show "length (map2 fmul (shift1 (Signal df)) ?lr) = length ?lr"
      using assms(2) by simp
  next
    fix t assume "t < length (map2 fmul (shift1 (Signal df)) ?lr)"
    then have t: "t < length (Close df)" "t < length (Signal df)" using assms(2) by simp_all
    show "map2 fmul (shift1 (Signal df)) ?lr ! t = ?lr ! t"
    proof (cases t)
      case 0
      have "Close df \<noteq> []" using t by auto
      from log_returns_hd [OF this] show ?thesis using t 0 by (simp add: shift1_nth)
    next
      case (Suc k)
      then have "Signal df ! k \<in> set (Signal df)" using t by simp
      then have "Signal df ! k = 1" using assms(1) by blast
      then show ?thesis using t Suc by (simp add: shift1_nth)
    qed
  qed
  then show ?thesis by (simp add: calculate_backtest_def Let_def)
qed

theorem always_bullish_equals_benchmark_witness:
  "list_all (\<lambda>s. s = 1) (Signal always_bullish_table) \<and>
   length (Signal always_bullish_table) = length (Close always_bullish_table) \<and>
   Equity_Strategy (calculate_backtest always_bullish_table 1000000) =
   Equity_Benchmark (calculate_backtest always_bullish_table 1000000)"
proof -
  have a: "\<forall>s \<in> set (Signal always_bullish_table). s = 1"
    by (simp add: always_bullish_table_def)
  have b: "length (Signal always_bullish_table) = length (Close always_bullish_table)"
    by (simp add: always_bullish_table_def)
  from always_bullish_equals_benchmark [OF a b, of 1000000] show ?thesis
    using a b by (simp add: list_all_iff)
qed

text \<open>
  Claim C10. For every price series, every capital and any two pairs of windows of at
  least 1, the indicators followed by the backtest succeed for both pairs, and the
  columns \<^verbatim>\<open>Log_Returns\<close>, \<^verbatim>\<open>Cum_Benchmark\<close> and \<^verbatim>\<open>Equity_Benchmark\<close> of the two results are
  the same: the benchmark does not depend on the windows or on the signal.
\<close>

theorem benchmark_independent_of_windows:
  assumes "1 \<le> s1" "1 \<le> l1" "1 \<le> s2" "1 \<le> l2"
  shows "\<exists>b1 b2. run_backtest_calc df s1 l1 capital = Inr b1 \<and>
                 run_backtest_calc df s2 l2 capital = Inr b2 \<and>
                 Log_Returns b1 = Log_Returns b2 \<and>
                 Cum_Benchmark b1 = Cum_Benchmark b2 \<and>
                 Equity_Benchmark b1 = Equity_Benchmark b2"
proof -
  obtain a1 where a1: "ewm_mean round_f64 s1 (Close df) = Inr a1" using ewm_mean_Inr [OF assms(1)] by blast
  obtain a2 where a2: "ewm_mean round_f64 l1 (Close df) = Inr a2" using ewm_mean_Inr [OF assms(2)] by blast
  obtain a3 where a3: "ewm_mean round_f64 s2 (Close df) = Inr a3" using ewm_mean_Inr [OF assms(3)] by blast
  obtain a4 where a4: "ewm_mean round_f64 l2 (Close df) = Inr a4" using ewm_mean_Inr [OF assms(4)] by blast
  show ?thesis
    by (simp add: run_backtest_calc_def calculate_indicators_def a1 a2 a3 a4 Let_def
        calculate_backtest_def)
qed

theorem benchmark_independent_of_windows_witness:
  "(1::int) \<le> 2 \<and> (1::int) \<le> 3 \<and> (1::int) \<le> 5 \<and> (1::int) \<le> 20 \<and>
   (\<exists>b1 b2. run_backtest_calc scenario_A 2 3 1000000 = Inr b1 \<and>
            run_backtest_calc scenario_A 5 20 1000000 = Inr b2 \<and>
            Log_Returns b1 = Log_Returns b2 \<and>
            Cum_Benchmark b1 = Cum_Benchmark b2 \<and>
            Equity_Benchmark b1 = Equity_Benchmark b2)"
  using benchmark_independent_of_windows [of 2 3 5 20 scenario_A 1000000]
  by simp

section \<open>The Monte Carlo simulation\<close>

lemma dropna_map_Some [simp]: "dropna (map Some ys) = ys"
  by (induction ys) simp_all

lemma dropna_replicate_Some [simp]: "dropna (replicate n (Some p)) = replicate n p"
  by (induction n) simp_all

text \<open>The daily changes of positive closes: NaN on row 0, a number on every later row.\<close>

lemma pct_change_pos:
  assumes "\<forall>c \<in> set xs. 0 < c" and "xs \<noteq> []"
  shows "pct_change xs = None # map (\<lambda>k. Some (xs ! Suc k / xs ! k - 1)) [0..<length xs - 1]"
proof (rule nth_equalityI)
  show "length (pct_change xs) =
        length (None # map (\<lambda>k. Some (xs ! Suc k / xs ! k - 1)) [0..<length xs - 1])"
    using assms(2) by (cases xs) (simp_all add: pct_change_def)
next
  fix t assume "t < length (pct_change xs)"
  then have t: "t < length xs" by (simp add: pct_change_def)
  show "pct_change xs ! t =
        (None # map (\<lambda>k. Some (xs ! Suc k / xs ! k - 1)) [0..<length xs - 1]) ! t"
  proof (cases t)
    case 0
    then show ?thesis using t by (simp add: pct_change_def shift1_nth fsub_def)
  next
    case (Suc k)
    have "0 < xs ! k" using assms(1) t Suc by simp
    moreover have "k < length xs - 1" using t Suc by simp
    ultimately show ?thesis using t Suc by (simp add: pct_change_def shift1_nth fsub_def)
  qed
qed

lemma mc_returns_pos:
  assumes "\<forall>c \<in> set (Close df). 0 < c"
  shows "mc_returns df = map (\<lambda>k. Close df ! Suc k / Close df ! k - 1) [0..<length (Close df) - 1]"
proof (cases "Close df = []")
  case True
  then show ?thesis by (simp add: mc_returns_def pct_change_def)
next
  case False
  have "map (\<lambda>k. Some (Close df ! Suc k / Close df ! k - 1)) [0..<length (Close df) - 1]
        = map Some (map (\<lambda>k. Close df ! Suc k / Close df ! k - 1) [0..<length (Close df) - 1])"
    by simp
  then show ?thesis
    unfolding mc_returns_def pct_change_pos [OF assms False]
    by (simp only: dropna.simps dropna_map_Some)
qed

lemma sum_list_upt: "sum_list (map f [0..<n]) = (\<Sum>k<n. f k)"
  by (simp add: interv_sum_list_conv_sum_set_nat atLeast0LessThan)

lemma map2_fmul_replicate_None:
  "length prev = n \<Longrightarrow> map2 fmul prev (replicate n None) = replicate n None"
  by (induction prev arbitrary: n) auto

lemma walk_paths_None:
  "length prev = n \<Longrightarrow>
   walk_paths prev (replicate k (replicate n None)) = replicate k (replicate n None)"
  by (induction k arbitrary: prev) (simp_all add: map2_fmul_replicate_None Let_def)

lemma map2_fmul_replicate_one:
  "map2 fmul (replicate n (Some p)) (replicate n (Some 1)) = replicate n (Some p)"
  by (induction n) simp_all

lemma walk_paths_one:
  "walk_paths (replicate n (Some p)) (replicate k (replicate n (Some 1))) =
   replicate k (replicate n (Some p))"
  by (induction k) (simp_all add: map2_fmul_replicate_one Let_def)

lemma daily_returns_const:
  assumes "\<And>s. f s = c"
  shows "map (map f) (map (\<lambda>t. map (z t) [0..<n]) [0..<h]) = replicate h (replicate n c)"
  by (simp add: assms map_replicate_const o_def)

lemma mc_mu_Some_nonempty: "mc_mu df = Some m \<Longrightarrow> Close df \<noteq> []"
  by (auto simp add: mc_mu_def series_mean_def mc_returns_def pct_change_def split: if_splits)

lemma population_variance_replicate: "population_variance (replicate n p) = 0"
  by (cases n) (simp_all add: population_variance_def Let_def sum_list_replicate map_replicate_const[symmetric] del: replicate.simps)

lemma mc_returns_up_down_flat: "mc_returns up_down_flat = [1 / 10, - 1 / 10, 0]"
  by (simp add: mc_returns_def pct_change_def fsub_def up_down_flat_def)

lemma sqrt_hundredth: "sqrt (1 / 100) = 1 / 10"
  by (rule real_sqrt_unique) (simp_all add: power2_eq_square)

lemma mc_sigma_up_down_flat: "mc_sigma up_down_flat = Some (1 / 10)"
  by (simp add: mc_sigma_def series_std_def mc_returns_up_down_flat Let_def power2_eq_square sqrt_hundredth)

lemma flat_series_statistics: "mc_mu flat_series = Some 0 \<and> mc_sigma flat_series = Some 0"
  by (simp add: mc_mu_def mc_sigma_def mc_returns_def pct_change_def fsub_def series_mean_def
      series_std_def flat_series_def Let_def)

text \<open>
  Claim C5, as amended. The claim says that \<open>mu\<close> and \<open>sigma\<close> are population statistics.
  \<^verbatim>\<open>returns.std()\<close> is the standard deviation of pandas, whose default is \<^verbatim>\<open>ddof=1\<close>: for
  every series of at least three positive closes, \<open>mu\<close> is the arithmetic mean of all the
  daily changes \<open>close[k + 1] / close[k] - 1\<close> of the history, and \<open>sigma\<close> is their sample
  standard deviation, the root of the sum of the squared deviations from \<open>mu\<close> divided by
  the number of changes less one. Nothing is windowed.
\<close>

theorem monte_carlo_sample_statistics:
  assumes "\<forall>c \<in> set (Close df). 0 < c" and "3 \<le> length (Close df)"
  shows "mc_mu df =
           Some ((\<Sum>k < length (Close df) - 1. Close df ! Suc k / Close df ! k - 1)
                 / real (length (Close df) - 1)) \<and>
         mc_sigma df =
           Some (sqrt ((\<Sum>k < length (Close df) - 1.
                          (Close df ! Suc k / Close df ! k - 1
                           - (\<Sum>j < length (Close df) - 1. Close df ! Suc j / Close df ! j - 1)
                             / real (length (Close df) - 1))\<^sup>2)
                       / real (length (Close df) - 2)))"
proof -
  let ?n = "length (Close df) - 1"
  let ?r = "\<lambda>k. Close df ! Suc k / Close df ! k - 1"
  have ret: "mc_returns df = map ?r [0..<?n]"
    by (rule mc_returns_pos [OF assms(1)])
  have len: "length (mc_returns df) = ?n" by (simp add: ret)
  have s1: "sum_list (mc_returns df) = (\<Sum>k<?n. ?r k)"
    by (simp only: ret sum_list_upt)
  have s2: "sum_list (map (\<lambda>x. (x - m)\<^sup>2) (mc_returns df)) = (\<Sum>k<?n. (?r k - m)\<^sup>2)" for m
    by (simp only: ret map_map o_def sum_list_upt)
  have ne: "mc_returns df \<noteq> []" "\<not> ?n < 2" "?n - 1 = length (Close df) - 2"
    using assms(2) len by auto
  show ?thesis
    using ne by (simp add: mc_mu_def mc_sigma_def series_mean_def series_std_def Let_def len s1 s2)
qed

theorem monte_carlo_sample_statistics_witness:
  "list_all (\<lambda>c. 0 < c) (Close up_down_flat) \<and> 3 \<le> length (Close up_down_flat) \<and>
   mc_mu up_down_flat = Some 0 \<and> mc_sigma up_down_flat = Some (1 / 10)"
proof -
  have pos: "\<forall>c \<in> set (Close up_down_flat). 0 < c"
    by (simp add: up_down_flat_def)
  have len: "3 \<le> length (Close up_down_flat)"
    by (simp add: up_down_flat_def)
  have mu: "mc_mu up_down_flat = Some 0"
    by (simp add: mc_mu_def series_mean_def mc_returns_up_down_flat)
  from monte_carlo_sample_statistics [OF pos len] show ?thesis
    using pos len mu mc_sigma_up_down_flat by (simp add: list_all_iff)
qed

text \<open>The claim as stated fails on the closes 100, 110, 99, 99: the daily changes are
  1/10, -1/10 and 0, their population standard deviation is the root of 1/150, and
  \<open>sigma\<close> is 1/10.\<close>

theorem monte_carlo_sigma_not_population:
  "mc_sigma up_down_flat \<noteq> population_std (mc_returns up_down_flat)"
proof -
  have "population_std (mc_returns up_down_flat) = Some (sqrt (1 / 150))"
    by (simp add: population_std_def population_variance_def mc_returns_up_down_flat Let_def
        power2_eq_square)
  moreover have "sqrt (1 / 150) \<noteq> sqrt (1 / 100)"
    by simp
  ultimately show ?thesis
    by (simp add: mc_sigma_up_down_flat sqrt_hundredth [symmetric])
qed

text \<open>
  Claim C2, as amended. The claim says that a series of fewer than two rows makes the
  simulation fail with an insufficient-data error. The code checks nothing: on a series
  of exactly one row, with a horizon of at least one day, \<open>mu\<close> and \<open>sigma\<close> are NaN and
  the simulation returns its result, whose first row of paths is the last close and
  whose every later row is NaN, for every draw of the shocks. Only a series without rows
  raises, the \<^verbatim>\<open>IndexError\<close> of \<^verbatim>\<open>iloc[-1]\<close>.
\<close>

theorem monte_carlo_short_series:
  "(Close df = [] \<longrightarrow>
      run_monte_carlo_simulation df simulations time_horizon z now = Inl IndexError) \<and>
   (length (Close df) = 1 \<and> 0 < time_horizon \<longrightarrow>
      mc_mu df = None \<and> mc_sigma df = None \<and>
      run_monte_carlo_simulation df simulations time_horizon z now =
        Inr \<lparr>dates = map (\<lambda>i. now + int i) [0..<time_horizon],
             price_paths = replicate simulations (Some (last (Close df)))
                           # replicate (time_horizon - 1) (replicate simulations None),
             final_prices = (if time_horizon = 1
                             then replicate simulations (Some (last (Close df)))
                             else replicate simulations None)\<rparr>)"
proof (intro conjI impI)
  assume "Close df = []"
  then show "run_monte_carlo_simulation df simulations time_horizon z now = Inl IndexError"
    by (simp add: run_monte_carlo_simulation_def iloc_last_def Let_def)
next
  assume a: "length (Close df) = 1 \<and> 0 < time_horizon"
  then obtain c where c: "Close df = [c]"
    by (cases "Close df") auto
  have ret: "mc_returns df = []"
    by (simp add: mc_returns_def pct_change_def c fsub_def)
  show mu: "mc_mu df = None" by (simp add: mc_mu_def series_mean_def ret)
  show sg: "mc_sigma df = None" by (simp add: mc_sigma_def series_std_def ret)
  let ?f = "\<lambda>s. np_exp (fadd (fsub None (fmul (Some 0.5) (fmul None None)))
                  (fmul None (Some s)))"
  have ne: "Close df \<noteq> []" using c by simp
  let ?row = "replicate simulations (Some (last (Close df)))"
  let ?nan = "replicate simulations (None :: cell)"
  have f: "?f s = None" for s
    by (simp add: np_exp_def fadd_def fsub_def)
  have daily: "map (map ?f) (map (\<lambda>t. map (z t) [0..<simulations]) [0..<time_horizon])
               = replicate time_horizon ?nan"
    by (rule daily_returns_const) (rule f)
  have walk: "walk_paths ?row (replicate k ?nan) = replicate k ?nan" for k
    by (simp add: walk_paths_None)
  have last_eq: "last (?row # replicate (time_horizon - Suc 0) ?nan) =
          (if time_horizon = Suc 0 then ?row else ?nan)"
    using a by (cases "time_horizon - 1") auto
  have "run_monte_carlo_simulation df simulations time_horizon z now =
        Inr \<lparr>dates = map (\<lambda>i. now + int i) [0..<time_horizon],
             price_paths = ?row # replicate (time_horizon - 1) ?nan,
             final_prices = (if time_horizon = 1 then ?row else ?nan)\<rparr>"
    unfolding run_monte_carlo_simulation_def Let_def mu sg daily
    using a ne by (simp add: iloc_last_def walk last_eq del: last.simps)
  then show "run_monte_carlo_simulation df simulations time_horizon z now =
        Inr \<lparr>dates = map (\<lambda>i. now + int i) [0..<time_horizon],
             price_paths = replicate simulations (Some (last (Close df)))
                           # replicate (time_horizon - 1) (replicate simulations None),
             final_prices = (if time_horizon = 1
                             then replicate simulations (Some (last (Close df)))
                             else replicate simulations None)\<rparr>"
    .
qed

theorem monte_carlo_short_series_witness:
  "run_monte_carlo_simulation no_rows 2 3 unit_shocks 0 = Inl IndexError \<and>
   mc_mu one_row = None \<and> mc_sigma one_row = None \<and>
   run_monte_carlo_simulation one_row 2 3 unit_shocks 0 =
     Inr \<lparr>dates = [0, 1, 2],
          price_paths = [[Some 100, Some 100], [None, None], [None, None]],
          final_prices = [None, None]\<rparr>"
  using monte_carlo_short_series [of no_rows 2 3 unit_shocks 0]
    monte_carlo_short_series [of one_row 2 3 unit_shocks 0]
  by (simp add: no_rows_def one_row_def numeral_3_eq_3 numeral_2_eq_2 upt_rec)

text \<open>The claim as stated fails on the series with the single close 100, with one path
  and a horizon of two days: the simulation returns, and the path ends in NaN.\<close>

theorem monte_carlo_one_row_returns_nan:
  "run_monte_carlo_simulation one_row 1 2 zero_shocks 0 =
     Inr \<lparr>dates = [0, 1], price_paths = [[Some 100], [None]], final_prices = [None]\<rparr>"
  by (simp add: run_monte_carlo_simulation_def mc_mu_def mc_sigma_def mc_returns_def
      pct_change_def series_mean_def series_std_def iloc_last_def one_row_def Let_def
      fsub_def fmul_def fadd_def np_exp_def zero_shocks_def upt_rec numeral_2_eq_2)

text \<open>A series of three or more equal positive closes has \<open>mu = 0\<close> and \<open>sigma = 0\<close>.\<close>

lemma constant_series_statistics:
  assumes "Close df = replicate n c" and "0 < c" and "3 \<le> n"
  shows "mc_mu df = Some 0 \<and> mc_sigma df = Some 0"
proof -
  have pos: "\<forall>x \<in> set (Close df). 0 < x"
    using assms(1,2) by simp
  have "mc_returns df =
        map (\<lambda>k. Close df ! Suc k / Close df ! k - 1) [0..<length (Close df) - 1]"
    by (rule mc_returns_pos [OF pos])
  also have "\<dots> = map (\<lambda>k. 0) [0..<n - 1]"
    using assms(1,2) by (auto simp add: map_eq_conv)
  finally have ret: "mc_returns df = replicate (n - 1) 0"
    by (simp add: map_replicate_const)
  have len: "\<not> n - 1 < 2" "n - 1 \<noteq> 0"
    using assms(3) by auto
  show ?thesis
    using len by (simp add: mc_mu_def mc_sigma_def series_mean_def series_std_def ret Let_def
        sum_list_replicate)
qed

text \<open>
  Claim C8. For every series of positive closes whose statistics are \<open>mu = 0\<close> and
  \<open>sigma = 0\<close>, as for three or more equal closes, every horizon of at least one day, every
  number of paths and every draw \<open>z\<close> of the shocks, the simulation returns, every row of
  every path is the last close, and so is every final price: the population variance of
  the final prices is 0.
\<close>

theorem monte_carlo_zero_volatility:
  assumes "mc_mu df = Some 0" and "mc_sigma df = Some 0" and "0 < time_horizon"
    and "\<forall>c \<in> set (Close df). 0 < c"
  shows "\<exists>r. run_monte_carlo_simulation df simulations time_horizon z now = Inr r \<and>
             price_paths r =
               replicate time_horizon (replicate simulations (Some (last (Close df)))) \<and>
             final_prices r = replicate simulations (Some (last (Close df))) \<and>
             population_variance (dropna (final_prices r)) = 0"
proof -
  have ne: "Close df \<noteq> []" using assms(1) by (rule mc_mu_Some_nonempty)
  let ?row = "replicate simulations (Some (last (Close df)))"
  let ?one = "replicate simulations (Some (1::real))"
  let ?f = "\<lambda>s. np_exp (fadd (fsub (Some 0) (fmul (Some 0.5) (fmul (Some 0) (Some 0))))
                  (fmul (Some 0) (Some s)))"
  have f: "?f s = Some 1" for s
    by (simp add: np_exp_def fadd_def fsub_def)
  have daily: "map (map ?f) (map (\<lambda>t. map (z t) [0..<simulations]) [0..<time_horizon])
               = replicate time_horizon ?one"
    by (rule daily_returns_const) (rule f)
  have paths: "?row # replicate (time_horizon - Suc 0) ?row = replicate time_horizon ?row"
    using assms(3) by (cases time_horizon) simp_all
  have last_eq: "last (replicate time_horizon ?row) = ?row"
    using assms(3) by simp
  have run: "run_monte_carlo_simulation df simulations time_horizon z now =
        Inr \<lparr>dates = map (\<lambda>i. now + int i) [0..<time_horizon],
             price_paths = replicate time_horizon ?row,
             final_prices = ?row\<rparr>"
    unfolding run_monte_carlo_simulation_def Let_def assms(1) assms(2) daily
    using assms(3) ne by (simp add: iloc_last_def walk_paths_one paths last_eq del: last.simps)
  show ?thesis
    by (simp add: run population_variance_replicate)
qed

theorem monte_carlo_zero_volatility_witness:
  "mc_mu flat_series = Some 0 \<and> mc_sigma flat_series = Some 0 \<and> (0::nat) < 3 \<and>
   list_all (\<lambda>c. 0 < c) (Close flat_series) \<and>
   (\<exists>r. run_monte_carlo_simulation flat_series 2 3 unit_shocks 0 = Inr r \<and>
        price_paths r = [[Some 100, Some 100], [Some 100, Some 100], [Some 100, Some 100]] \<and>
        final_prices r = [Some 100, Some 100] \<and>
        population_variance (dropna (final_prices r)) = 0)"
proof -
  have mu: "mc_mu flat_series = Some 0" and sg: "mc_sigma flat_series = Some 0"
    using flat_series_statistics by simp_all
  have h: "(0::nat) < 3" by simp
  have pos: "\<forall>c \<in> set (Close flat_series). 0 < c"
    by (simp add: flat_series_def)
  have cl: "last (Close flat_series) = 100"
    by (simp add: flat_series_def)
  from monte_carlo_zero_volatility [OF mu sg h pos, of 2 unit_shocks 0] show ?thesis
    using mu sg pos by (simp add: cl numeral_3_eq_3 numeral_2_eq_2 list_all_iff)
qed

section \<open>The maximum drawdown\<close>

lemma dropna_append [simp]: "dropna (xs @ ys) = dropna xs @ dropna ys"
  by (induction xs rule: dropna.induct) simp_all

lemma dropna_take_Some:
  assumes "t < length e" and "e ! t = Some x"
  shows "dropna (take (Suc t) e) = dropna (take t e) @ [x]"
  using assms by (simp add: take_Suc_conv_app_nth)

lemma dropna_split:
  assumes "t < length e" and "e ! t = Some x"
  shows "dropna e = dropna (take t e) @ x # dropna (drop (Suc t) e)"
proof -
  have "e = take t e @ e ! t # drop (Suc t) e"
    using assms(1) by (simp add: id_take_nth_drop)
  then have "dropna e = dropna (take t e @ Some x # drop (Suc t) e)"
    using assms(2) by simp
  then show ?thesis by simp
qed

lemma cummax_from_nth:
  "t < length e \<Longrightarrow>
   cummax_from m e ! t =
     (case e ! t of None \<Rightarrow> None
      | Some x \<Rightarrow> Some (Max (set (dropna (take (Suc t) e)) \<union> set_option m)))"
proof (induction m e arbitrary: t rule: cummax_from.induct)
  case (1 m)
  then show ?case by simp
next
  case (2 m xs)
  then show ?case by (cases t) (simp_all split: option.splits)
next
  case (3 m x xs)
  let ?m' = "case m of None \<Rightarrow> x | Some y \<Rightarrow> max y x"
  show ?case
  proof (cases t)
    case 0
    then show ?thesis by (cases m) (simp_all add: Let_def max.commute)
  next
    case (Suc k)
    with 3 have k: "k < length xs" by simp
    have ih: "cummax_from (Some ?m') xs ! k =
      (case xs ! k of None \<Rightarrow> None
       | Some z \<Rightarrow> Some (Max (set (dropna (take (Suc k) xs)) \<union> set_option (Some ?m'))))"
      using "3.IH" [OF refl k] by simp
    show ?thesis
    proof (cases "xs ! k")
      case None
      then show ?thesis using ih Suc by (simp add: Let_def)
    next
      case (Some z)
      let ?A = "set (dropna (take (Suc k) xs))"
      have fin: "finite ?A" by simp
      have "z \<in> ?A" using dropna_take_Some [OF k Some] by simp
      then have ne: "?A \<noteq> {}" by auto
      have "Max (?A \<union> {?m'}) = Max (insert x ?A \<union> set_option m)"
      proof (cases m)
        case None
        then show ?thesis by (simp add: insert_commute)
      next
        case (Some y)
        have "Max (insert x ?A \<union> {y}) = Max (insert (max y x) ?A)"
          using fin ne by (simp add: Max_insert max.assoc max.commute max.left_commute)
        then show ?thesis using Some by simp
      qed
      then show ?thesis using ih Suc Some by (simp add: Let_def)
    qed
  qed
qed

lemma length_cummax_from [simp]: "length (cummax_from m e) = length e"
  by (induction m e rule: cummax_from.induct) (simp_all add: Let_def)

lemma cummax_nth:
  "t < length e \<Longrightarrow>
   cummax e ! t = (case e ! t of None \<Rightarrow> None | Some x \<Rightarrow> Some (running_max_spec e t))"
  by (cases "e ! t") (simp_all add: cummax_def cummax_from_nth running_max_spec_def)

lemma dropna_map_if:
  "dropna (map (\<lambda>t. if P t then Some (f t) else None) ts) = map f (filter P ts)"
  by (induction ts) simp_all

lemma series_min_Min:
  assumes "dropna xs \<noteq> []"
  shows "series_min xs = Some (Min (set (dropna xs)))"
proof (cases "dropna xs")
  case Nil
  with assms show ?thesis by simp
next
  case (Cons y ys)
  have "fold min ys y = Min (set (y # ys))"
    by (simp only: Min.set_eq_fold)
  then show ?thesis
    by (simp add: series_min_def Cons del: set_simps)
qed

lemma running_max_ge:
  assumes "t < length e" and "e ! t = Some x"
  shows "x \<le> running_max_spec e t"
  unfolding running_max_spec_def dropna_take_Some [OF assms] by simp

lemma running_max_in:
  assumes "t < length e" and "e ! t = Some x"
  shows "running_max_spec e t \<in> set (dropna e)"
proof -
  let ?A = "set (dropna (take (Suc t) e))"
  have "x \<in> ?A" unfolding dropna_take_Some [OF assms] by simp
  then have "Max ?A \<in> ?A" by (intro Max_in) auto
  moreover have "?A \<subseteq> set (dropna e)"
    unfolding dropna_take_Some [OF assms] dropna_split [OF assms] by auto
  ultimately show ?thesis by (auto simp add: running_max_spec_def)
qed

lemma running_max_sorted:
  assumes "t < length e" and "e ! t = Some x" and "sorted (dropna e)"
  shows "running_max_spec e t = x"
proof -
  have "sorted (dropna (take t e) @ x # dropna (drop (Suc t) e))"
    using assms(3) unfolding dropna_split [OF assms(1,2)] .
  then have "\<forall>a \<in> set (dropna (take t e)). a \<le> x"
    by (simp add: sorted_append)
  then show ?thesis
    unfolding running_max_spec_def dropna_take_Some [OF assms(1,2)]
    by (intro Max_eqI) auto
qed

lemma in_dropna:
  assumes "t < length e" and "e ! t = Some x"
  shows "x \<in> set (dropna e)"
  unfolding dropna_split [OF assms] by simp

text \<open>A column that holds a number has a first row that holds one.\<close>

lemma first_number:
  assumes "dropna e \<noteq> []"
  shows "\<exists>k x. k < length e \<and> e ! k = Some x \<and> dropna (take k e) = []"
  using assms
proof (induction e rule: dropna.induct)
  case 1
  then show ?case by simp
next
  case (2 xs)
  then obtain k x where "k < length xs" "xs ! k = Some x" "dropna (take k xs) = []"
    by auto
  then have "Suc k < length (None # xs) \<and> (None # xs) ! Suc k = Some x \<and>
             dropna (take (Suc k) (None # xs)) = []"
    by simp
  then show ?case by blast
next
  case (3 x xs)
  have "0 < length (Some x # xs) \<and> (Some x # xs) ! 0 = Some x \<and>
        dropna (take 0 (Some x # xs)) = []"
    by simp
  then show ?case by blast
qed

lemma drawdown_column:
  assumes "0 \<notin> set (dropna e)"
  shows "map2 (\<lambda>v m. fsub (fdiv v m) (Some 1)) e (cummax e) =
         map (\<lambda>t. if e ! t \<noteq> None then Some (drawdown_spec e t) else None) [0..<length e]"
proof (rule nth_equalityI)
  show "length (map2 (\<lambda>v m. fsub (fdiv v m) (Some 1)) e (cummax e)) =
        length (map (\<lambda>t. if e ! t \<noteq> None then Some (drawdown_spec e t) else None) [0..<length e])"
    by (simp add: cummax_def)
next
  fix t assume "t < length (map2 (\<lambda>v m. fsub (fdiv v m) (Some 1)) e (cummax e))"
  then have t: "t < length e" by (simp add: cummax_def)
  show "map2 (\<lambda>v m. fsub (fdiv v m) (Some 1)) e (cummax e) ! t =
        map (\<lambda>t. if e ! t \<noteq> None then Some (drawdown_spec e t) else None) [0..<length e] ! t"
  proof (cases "e ! t")
    case None
    then show ?thesis using t by (simp add: cummax_def cummax_nth [unfolded cummax_def] fsub_def)
  next
    case (Some x)
    have "running_max_spec e t \<noteq> 0"
      using running_max_in [OF t Some] assms by metis
    then show ?thesis
      using t Some by (simp add: cummax_def cummax_nth [unfolded cummax_def] fsub_def drawdown_spec_def)
  qed
qed

lemma filter_defined_nonempty:
  assumes "dropna e \<noteq> []"
  shows "filter (\<lambda>t. e ! t \<noteq> None) [0..<length e] \<noteq> []"
proof -
  from first_number [OF assms] obtain t x where "t < length e" "e ! t = Some x"
    by blast
  then have "t \<in> set (filter (\<lambda>t. e ! t \<noteq> None) [0..<length e])" by simp
  then show ?thesis by (metis empty_iff empty_set)
qed

lemma max_dd_spec:
  assumes "dropna e \<noteq> []" and "0 \<notin> set (dropna e)"
  shows "series_min (map2 (\<lambda>v m. fsub (fdiv v m) (Some 1)) e (cummax e)) =
           Some (max_drawdown_spec e)"
    and "max_drawdown_spec e \<le> 0"
    and "sorted (dropna e) \<Longrightarrow> max_drawdown_spec e = 0"
proof -
  let ?ts = "filter (\<lambda>t. e ! t \<noteq> None) [0..<length e]"
  let ?D = "set (map (drawdown_spec e) ?ts)"
  have ne: "?ts \<noteq> []" by (rule filter_defined_nonempty [OF assms(1)])
  have dd: "dropna (map2 (\<lambda>v m. fsub (fdiv v m) (Some 1)) e (cummax e)) = map (drawdown_spec e) ?ts"
    unfolding drawdown_column [OF assms(2)] by (rule dropna_map_if)
  show "series_min (map2 (\<lambda>v m. fsub (fdiv v m) (Some 1)) e (cummax e)) =
           Some (max_drawdown_spec e)"
    using ne by (simp add: series_min_Min dd max_drawdown_spec_def)
  have fin: "finite ?D" "?D \<noteq> {}"
    using ne by (simp, metis map_is_Nil_conv set_empty)
  show "max_drawdown_spec e \<le> 0"
  proof -
    from first_number [OF assms(1)] obtain k x
      where k: "k < length e" "e ! k = Some x" "dropna (take k e) = []"
      by blast
    have "x \<noteq> 0" using in_dropna [OF k(1,2)] assms(2) by metis
    moreover have "running_max_spec e k = x"
      unfolding running_max_spec_def dropna_take_Some [OF k(1,2)] k(3) by simp
    ultimately have "drawdown_spec e k = 0"
      using k(2) by (simp add: drawdown_spec_def)
    moreover have "k \<in> set ?ts" using k(1,2) by simp
    ultimately have "0 \<in> ?D" by (metis image_eqI set_map)
    then have "Min ?D \<le> 0" using fin(1) by (rule Min_le [rotated])
    then show ?thesis by (simp only: max_drawdown_spec_def)
  qed
  have "Min ?D \<in> ?D" using fin by (rule Min_in)
  show "max_drawdown_spec e = 0" if s: "sorted (dropna e)"
  proof -
    have "d = 0" if "d \<in> ?D" for d
    proof -
      from that obtain t x where t: "t < length e" "e ! t = Some x" "d = drawdown_spec e t"
        by auto
      have "running_max_spec e t = x" by (rule running_max_sorted [OF t(1,2) s])
      moreover have "x \<noteq> 0"
        using in_dropna [OF t(1,2)] assms(2) by metis
      ultimately show ?thesis using t by (simp add: drawdown_spec_def)
    qed
    with \<open>Min ?D \<in> ?D\<close> show ?thesis
      unfolding max_drawdown_spec_def by blast
  qed
qed

text \<open>The maximum drawdown of a frame whose strategy equity holds a number and no zero.\<close>

lemma max_drawdown_of_frame:
  assumes "Date df \<noteq> []" and "Equity_Benchmark df \<noteq> []"
    and "dropna (Equity_Strategy df) \<noteq> []"
    and "0 \<notin> set (dropna (Equity_Strategy df))"
  shows "\<exists>m d. calculate_metrics df capital = Inr m \<and> max_dd m = Some d \<and>
               d = max_drawdown_spec (Equity_Strategy df) \<and> d \<le> 0 \<and>
               (sorted (dropna (Equity_Strategy df)) \<longrightarrow> d = 0)"
proof -
  have ne: "Equity_Strategy df \<noteq> []" using assms(3) by auto
  obtain d0 ds where date: "Date df = d0 # ds" using assms(1) by (cases "Date df") auto
  note md = max_dd_spec [OF assms(3,4)]
  show ?thesis
    using ne assms(2) md
    by (simp add: calculate_metrics_def iloc_last_def iloc_first_def date Let_def)
qed

text \<open>The equity of a backtest of two rows or more, with positive closes and a capital
  that is not 0, holds a number on every row but the first, and no zero.\<close>

lemma backtest_equity_nonzero:
  assumes "length (Signal df) = length (Close df)" and "\<forall>c \<in> set (Close df). 0 < c"
    and "2 \<le> length (Close df)" and "capital \<noteq> 0"
  shows "dropna (Equity_Strategy (calculate_backtest df capital)) \<noteq> [] \<and>
         0 \<notin> set (dropna (Equity_Strategy (calculate_backtest df capital)))"
proof -
  have ne: "Close df \<noteq> []" using assms(3) by auto
  let ?ys = "map (\<lambda>k. Signal df ! k * ln (Close df ! Suc k / Close df ! k))
               [0..<length (Close df) - 1]"
  note sr = strategy_returns_pos [OF assms(1,2) ne]
  obtain zs where zs: "cumsum_from 0 (map Some ?ys) = map Some zs" "length zs = length ?ys"
    using cumsum_from_map_Some by blast
  have es: "Equity_Strategy (calculate_backtest df capital) =
            map (\<lambda>c. fmul c (Some capital))
              (map np_exp (cumsum (map2 fmul (shift1 (Signal df))
                (map np_log (map2 fdiv (map Some (Close df)) (shift1 (Close df)))))))"
    by (simp add: calculate_backtest_def Let_def)
  have eq: "Equity_Strategy (calculate_backtest df capital) =
            None # map Some (map (\<lambda>z. exp z * capital) zs)"
    unfolding es sr cumsum_def cumsum_from.simps zs(1)
    by (simp add: np_exp_def o_def)
  have dn: "dropna (Equity_Strategy (calculate_backtest df capital)) =
            map (\<lambda>z. exp z * capital) zs"
    unfolding eq by (simp only: dropna.simps dropna_map_Some)
  have "zs \<noteq> []" using zs(2) assms(3) by auto
  then show ?thesis
    using assms(4) by (auto simp add: dn)
qed

text \<open>The backtest of a table of one row has no drawdown: its only equity is NaN.\<close>

lemma single_row_drawdown:
  assumes "Date df \<noteq> []" and "length (Signal df) = 1" and "length (Close df) = 1"
  shows "\<exists>m. calculate_metrics (calculate_backtest df capital) capital = Inr m \<and>
             max_dd m = None"
proof -
  obtain c where c: "Close df = [c]"
    using assms(3) by (cases "Close df") auto
  obtain g where g: "Signal df = [g]"
    using assms(2) by (cases "Signal df") auto
  obtain d0 ds where date: "Date df = d0 # ds"
    using assms(1) by (cases "Date df") auto
  show ?thesis
    by (simp add: calculate_metrics_def calculate_backtest_def Let_def c g date cumsum_def
        np_exp_def iloc_last_def iloc_first_def cummax_def series_min_def fsub_def)
qed

lemma rising_equity:
  "Equity_Strategy (calculate_backtest rising_table 1000000) = [None, Some 1100000, Some 1320000]"
  by (simp add: calculate_backtest_def rising_table_def Let_def cumsum_def np_exp_def exp_add)

lemma rising_frame:
  "Date (calculate_backtest rising_table 1000000) = [0, 1, 2]"
  "Equity_Benchmark (calculate_backtest rising_table 1000000) \<noteq> []"
  by (simp_all add: calculate_backtest_def rising_table_def Let_def cumsum_def)

lemma bullish_equity:
  "Equity_Strategy (calculate_backtest always_bullish_table 1000000) = [None, Some 1100000, Some 990000]"
  by (simp add: calculate_backtest_def always_bullish_table_def Let_def cumsum_def np_exp_def exp_add)

lemma dipping_drawdown:
  "\<exists>m. calculate_metrics (calculate_backtest always_bullish_table 1000000) 1000000 = Inr m \<and>
        max_dd m = Some (- 1 / 10)"
proof -
  have d: "Date (calculate_backtest always_bullish_table 1000000) = [0, 1, 2]"
    "Equity_Benchmark (calculate_backtest always_bullish_table 1000000) \<noteq> []"
    by (simp_all add: calculate_backtest_def always_bullish_table_def Let_def cumsum_def)
  show ?thesis
    by (simp add: calculate_metrics_def iloc_last_def iloc_first_def Let_def bullish_equity d
        cummax_def series_min_def fsub_def)
qed

text \<open>
  Claim C6, as amended. \<^verbatim>\<open>calculate_metrics\<close> takes as the drawdown of a row its strategy
  equity over the running maximum, less one, and as the maximum drawdown the least
  drawdown, where \<^verbatim>\<open>cummax\<close> and \<^verbatim>\<open>min\<close> skip the rows that are NaN. The claim says that
  this value is always at most 0. The first row of the equity of a backtest is NaN, so
  for every table of a single row that \<^verbatim>\<open>calculate_backtest\<close> makes the maximum drawdown is
  NaN, which is neither at most 0 nor 0. For every backtest table with at least one row
  whose strategy equity holds at least one number and no zero, and so for every table
  that \<^verbatim>\<open>calculate_backtest\<close> makes of two rows or more with positive closes and a capital
  that is not 0, the maximum drawdown is the minimum of the specification over the rows
  that hold a number, it is at most 0, and it is 0 when the numbers of the curve never
  decrease.
\<close>

theorem max_drawdown_is_least_drawdown:
  "(Date df \<noteq> [] \<and> Equity_Benchmark df \<noteq> [] \<and> dropna (Equity_Strategy df) \<noteq> [] \<and>
    0 \<notin> set (dropna (Equity_Strategy df)) \<longrightarrow>
      (\<exists>m d. calculate_metrics df capital = Inr m \<and> max_dd m = Some d \<and>
             d = max_drawdown_spec (Equity_Strategy df) \<and> d \<le> 0 \<and>
             (sorted (dropna (Equity_Strategy df)) \<longrightarrow> d = 0))) \<and>
   (Date ind \<noteq> [] \<and> length (Signal ind) = length (Close ind) \<and> 2 \<le> length (Close ind) \<and>
    (\<forall>c \<in> set (Close ind). 0 < c) \<and> capital \<noteq> 0 \<longrightarrow>
      (\<exists>m d. calculate_metrics (calculate_backtest ind capital) capital = Inr m \<and>
             max_dd m = Some d \<and>
             d = max_drawdown_spec (Equity_Strategy (calculate_backtest ind capital)) \<and>
             d \<le> 0 \<and>
             (sorted (dropna (Equity_Strategy (calculate_backtest ind capital))) \<longrightarrow> d = 0))) \<and>
   (Date ind \<noteq> [] \<and> length (Signal ind) = 1 \<and> length (Close ind) = 1 \<longrightarrow>
      (\<exists>m. calculate_metrics (calculate_backtest ind capital) capital = Inr m \<and>
           max_dd m = None))"
proof (intro conjI impI)
  assume "Date df \<noteq> [] \<and> Equity_Benchmark df \<noteq> [] \<and> dropna (Equity_Strategy df) \<noteq> [] \<and>
    0 \<notin> set (dropna (Equity_Strategy df))"
  then show "\<exists>m d. calculate_metrics df capital = Inr m \<and> max_dd m = Some d \<and>
             d = max_drawdown_spec (Equity_Strategy df) \<and> d \<le> 0 \<and>
             (sorted (dropna (Equity_Strategy df)) \<longrightarrow> d = 0)"
    by (intro max_drawdown_of_frame) simp_all
next
  assume h: "Date ind \<noteq> [] \<and> length (Signal ind) = length (Close ind) \<and>
    2 \<le> length (Close ind) \<and> (\<forall>c \<in> set (Close ind). 0 < c) \<and> capital \<noteq> 0"
  let ?bt = "calculate_backtest ind capital"
  have d: "Date ?bt \<noteq> []"
    using h by (simp add: calculate_backtest_def Let_def)
  have "length (Equity_Benchmark ?bt) = length (Close ind)"
    by (simp add: calculate_backtest_def Let_def cumsum_def)
  then have b: "Equity_Benchmark ?bt \<noteq> []"
    using h by auto
  from h have "dropna (Equity_Strategy ?bt) \<noteq> [] \<and> 0 \<notin> set (dropna (Equity_Strategy ?bt))"
    by (intro backtest_equity_nonzero) simp_all
  then show "\<exists>m d. calculate_metrics ?bt capital = Inr m \<and> max_dd m = Some d \<and>
             d = max_drawdown_spec (Equity_Strategy ?bt) \<and> d \<le> 0 \<and>
             (sorted (dropna (Equity_Strategy ?bt)) \<longrightarrow> d = 0)"
    using d b by (intro max_drawdown_of_frame) simp_all
next
  assume "Date ind \<noteq> [] \<and> length (Signal ind) = 1 \<and> length (Close ind) = 1"
  then show "\<exists>m. calculate_metrics (calculate_backtest ind capital) capital = Inr m \<and>
           max_dd m = None"
    by (intro single_row_drawdown) simp_all
qed

theorem max_drawdown_is_least_drawdown_witness:
  "sorted (dropna (Equity_Strategy (calculate_backtest rising_table 1000000))) \<and>
   (\<exists>m. calculate_metrics (calculate_backtest rising_table 1000000) 1000000 = Inr m \<and>
        max_dd m = Some 0) \<and>
   (\<exists>m. calculate_metrics (calculate_backtest always_bullish_table 1000000) 1000000 = Inr m \<and>
        max_dd m = Some (- 1 / 10)) \<and>
   (\<exists>m. calculate_metrics (calculate_backtest one_row_table 1000000) 1000000 = Inr m \<and>
        max_dd m = None)"
proof -
  let ?bt = "calculate_backtest rising_table 1000000"
  have a: "Date ?bt \<noteq> [] \<and> Equity_Benchmark ?bt \<noteq> [] \<and> dropna (Equity_Strategy ?bt) \<noteq> [] \<and>
           0 \<notin> set (dropna (Equity_Strategy ?bt))"
    by (simp add: rising_frame rising_equity)
  have s: "sorted (dropna (Equity_Strategy ?bt))"
    by (simp add: rising_equity)
  have b: "Date rising_table \<noteq> [] \<and> length (Signal rising_table) = length (Close rising_table) \<and>
           2 \<le> length (Close rising_table) \<and> (\<forall>c \<in> set (Close rising_table). 0 < c) \<and>
           (1000000::real) \<noteq> 0"
    by (simp add: rising_table_def)
  have c: "Date one_row_table \<noteq> [] \<and> length (Signal one_row_table) = 1 \<and>
           length (Close one_row_table) = 1"
    by (simp add: one_row_table_def)
  note general = max_drawdown_is_least_drawdown
    [where df = "?bt" and capital = 1000000 and ind = rising_table]
  note single = max_drawdown_is_least_drawdown
    [where df = "?bt" and capital = 1000000 and ind = one_row_table]
  from general a obtain m d
    where "calculate_metrics ?bt 1000000 = Inr m" "max_dd m = Some d"
      "sorted (dropna (Equity_Strategy ?bt)) \<longrightarrow> d = 0"
    by blast
  with s have r1: "\<exists>m. calculate_metrics ?bt 1000000 = Inr m \<and> max_dd m = Some 0"
    by auto
  from general b obtain m' d'
    where "calculate_metrics ?bt 1000000 = Inr m'" "max_dd m' = Some d'" "d' \<le> 0"
    by blast
  then have r2: "\<exists>m d. calculate_metrics ?bt 1000000 = Inr m \<and> max_dd m = Some d \<and> d \<le> 0"
    by auto
  from single c have r3:
    "\<exists>m. calculate_metrics (calculate_backtest one_row_table 1000000) 1000000 = Inr m \<and>
         max_dd m = None"
    by blast
  show ?thesis
    using s r1 r2 dipping_drawdown r3 by blast
qed

text \<open>The claim as stated fails on the backtest of the table of one row: its maximum
  drawdown is not a number, so it is not a number that is at most 0.\<close>

theorem max_drawdown_single_row_is_nan:
  "\<not> (case calculate_metrics (calculate_backtest one_row_table 1000000) 1000000 of
        Inl e \<Rightarrow> False
      | Inr m \<Rightarrow> (case max_dd m of None \<Rightarrow> False | Some d \<Rightarrow> d \<le> 0))"
  by (simp add: calculate_metrics_def calculate_backtest_def one_row_table_def Let_def
      cumsum_def np_exp_def iloc_last_def iloc_first_def cummax_def series_min_def fsub_def)

end
